theory Spec2Isabelle
  imports Complex_Main "HOL-Library.List_Lexorder" "HOL-Library.Multiset"
begin

section \<open>JavaScript values of the score handler\<close>

text \<open>
  The repository holds two variants of one Deno edge function:
  \<^verbatim>\<open>src/supabase/functions/update_scores/index.ts\<close> (signature check is blocking, the
  success response is \<^verbatim>\<open>{ ok: true }\<close>) and \<^verbatim>\<open>src/unnamed/part_000\<close> (freshness
  check is blocking, the signature check is only logged, the success response carries the
  row). Definitions ending in \<open>_index\<close> embed the first file, definitions ending in
  \<open>_part000\<close> the second; definitions without a suffix embed lines that are the same in
  both files.

  A JavaScript string is a sequence of UTF-16 code units; a code unit is a natural number
  below 65536. The numbers of the token and the clock (\<^verbatim>\<open>auth_date\<close>, the time in
  seconds, a numeric \<^verbatim>\<open>id\<close>) are modelled as unbounded integers: the handler only
  compares and subtracts them, which is exact on doubles for integers below \<open>2 ^ 53\<close>.
  The scores are modelled as JavaScript numbers with \<^verbatim>\<open>NaN\<close> and the infinities (type
  \<open>number\<close> below).
\<close>

type_synonym jsstring = "nat list"

definition js :: "string \<Rightarrow> jsstring" where
  "js s = map of_char s"

text \<open>Values that \<^verbatim>\<open>JSON.parse\<close> can return.\<close>

datatype json =
    JNull
  | JBool bool
  | JNum int
  | JStr jsstring
  | JArr "json list"
  | JObj "(jsstring \<times> json) list"

text \<open>
  \<^verbatim>\<open>String.prototype.trim\<close> strips the code units of WhiteSpace and LineTerminator
  from both ends.
\<close>

definition is_js_space :: "nat \<Rightarrow> bool" where
  "is_js_space c \<longleftrightarrow>
     (9 \<le> c \<and> c \<le> 13) \<or> c = 32 \<or> c = 160 \<or> c = 5760 \<or> (8192 \<le> c \<and> c \<le> 8202) \<or>
     c = 8232 \<or> c = 8233 \<or> c = 8239 \<or> c = 8287 \<or> c = 12288 \<or> c = 65279"

definition js_trim :: "jsstring \<Rightarrow> jsstring" where
  "js_trim s = rev (dropWhile is_js_space (rev (dropWhile is_js_space s)))"

section \<open>Platform functions on strings and bytes\<close>

text \<open>
  The functions of this section are not code of the repository: they are the parts of the
  JavaScript platform the handler calls, written out as their standards define them
  (ECMAScript, the WHATWG URL and Encoding standards).
\<close>

type_synonym bytes = "nat list"

definition high_surrogate :: "nat \<Rightarrow> bool" where
  "high_surrogate c \<longleftrightarrow> 55296 \<le> c \<and> c \<le> 56319"

definition low_surrogate :: "nat \<Rightarrow> bool" where
  "low_surrogate c \<longleftrightarrow> 56320 \<le> c \<and> c \<le> 57343"

definition utf8_bytes :: "nat \<Rightarrow> bytes" where
  "utf8_bytes cp =
     (if cp < 128 then [cp]
      else if cp < 2048 then [192 + cp div 64, 128 + cp mod 64]
      else if cp < 65536 then [224 + cp div 4096, 128 + cp div 64 mod 64, 128 + cp mod 64]
      else [240 + cp div 262144, 128 + cp div 4096 mod 64, 128 + cp div 64 mod 64,
            128 + cp mod 64])"

text \<open>
  \<^verbatim>\<open>new TextEncoder().encode(s)\<close>: UTF-8, a surrogate pair as one code point, a lone
  surrogate as U+FFFD.
\<close>

fun utf8_encode :: "jsstring \<Rightarrow> bytes" where
  "utf8_encode [] = []"
| "utf8_encode [c] =
     (if high_surrogate c \<or> low_surrogate c then utf8_bytes 65533 else utf8_bytes c)"
| "utf8_encode (c # d # cs) =
     (if high_surrogate c \<and> low_surrogate d
      then utf8_bytes (65536 + (c - 55296) * 1024 + (d - 56320)) @ utf8_encode cs
      else if high_surrogate c \<or> low_surrogate c then utf8_bytes 65533 @ utf8_encode (d # cs)
      else utf8_bytes c @ utf8_encode (d # cs))"

definition code_units :: "nat \<Rightarrow> jsstring" where
  "code_units cp =
     (if cp < 65536 then [cp]
      else [55296 + (cp - 65536) div 1024, 56320 + (cp - 65536) mod 1024])"

text \<open>
  The WHATWG UTF-8 decoder (without BOM handling, errors replaced by U+FFFD): the state
  is the code point so far, the number of bytes still needed and the bounds of the next
  byte. A byte that ends a sequence early is read again in the start state.
\<close>

function utf8_decode_from :: "nat \<Rightarrow> nat \<Rightarrow> nat \<Rightarrow> nat \<Rightarrow> bytes \<Rightarrow> jsstring" where
  "utf8_decode_from cp need lo hi [] = (if need = 0 then [] else [65533])"
| "utf8_decode_from cp need lo hi (b # bs) =
     (if need = 0 then
        (if b \<le> 127 then b # utf8_decode_from 0 0 128 191 bs
         else if 194 \<le> b \<and> b \<le> 223 then utf8_decode_from (b mod 32) 1 128 191 bs
         else if 224 \<le> b \<and> b \<le> 239
           then utf8_decode_from (b mod 16) 2 (if b = 224 then 160 else 128)
                  (if b = 237 then 159 else 191) bs
         else if 240 \<le> b \<and> b \<le> 244
           then utf8_decode_from (b mod 8) 3 (if b = 240 then 144 else 128)
                  (if b = 244 then 143 else 191) bs
         else 65533 # utf8_decode_from 0 0 128 191 bs)
      else if b < lo \<or> hi < b then 65533 # utf8_decode_from 0 0 128 191 (b # bs)
      else if need = 1 then code_units (cp * 64 + b mod 64) @ utf8_decode_from 0 0 128 191 bs
      else utf8_decode_from (cp * 64 + b mod 64) (need - 1) 128 191 bs)"
  by pat_completeness auto
termination
  by (relation "measure (\<lambda>(cp, need, lo, hi, bs). 2 * length bs + (if need = 0 then 0 else 1))")
    auto

definition utf8_decode :: "bytes \<Rightarrow> jsstring" where
  "utf8_decode bs = utf8_decode_from 0 0 128 191 bs"

definition hex_digit :: "nat \<Rightarrow> bool" where
  "hex_digit c \<longleftrightarrow> (48 \<le> c \<and> c \<le> 57) \<or> (65 \<le> c \<and> c \<le> 70) \<or> (97 \<le> c \<and> c \<le> 102)"

definition hex_value :: "nat \<Rightarrow> nat" where
  "hex_value c = (if c \<le> 57 then c - 48 else if c \<le> 70 then c - 55 else c - 87)"

text \<open>The URL standard's percent-decode: an escape that is not two hex digits stays.\<close>

fun percent_decode :: "bytes \<Rightarrow> bytes" where
  "percent_decode (p # h1 # h2 # bs) =
     (if p = 37 \<and> hex_digit h1 \<and> hex_digit h2
      then (16 * hex_value h1 + hex_value h2) # percent_decode bs
      else p # percent_decode (h1 # h2 # bs))"
| "percent_decode (p # bs) = p # percent_decode bs"
| "percent_decode [] = []"

text \<open>\<^verbatim>\<open>s.split(sep)\<close> for a separator of one code unit.\<close>

fun split_on :: "nat \<Rightarrow> jsstring \<Rightarrow> jsstring list" where
  "split_on sep [] = [[]]"
| "split_on sep (c # cs) =
     (if c = sep then [] # split_on sep cs
      else (case split_on sep cs of [] \<Rightarrow> [[c]] | p # ps \<Rightarrow> (c # p) # ps))"

text \<open>
  A field up to its first \<^verbatim>\<open>=\<close> and what follows it: the name and value of the URL
  standard's parser, and \<^verbatim>\<open>key\<close> and \<^verbatim>\<open>valueParts.join('=')\<close> of part_000 lines
  34-35.
\<close>

definition key_part :: "jsstring \<Rightarrow> jsstring" where
  "key_part part = takeWhile (\<lambda>c. c \<noteq> 61) part"

definition value_part :: "jsstring \<Rightarrow> jsstring" where
  "value_part part = drop 1 (dropWhile (\<lambda>c. c \<noteq> 61) part)"

text \<open>
  The name or value of a form-urlencoded field: \<^verbatim>\<open>+\<close> becomes a space, the bytes are
  percent-decoded and read as UTF-8.
\<close>

definition form_decode :: "jsstring \<Rightarrow> jsstring" where
  "form_decode s =
     utf8_decode (percent_decode (map (\<lambda>b. if b = 43 then 32 else b) (utf8_encode s)))"

text \<open>
  \<^verbatim>\<open>new URLSearchParams(init)\<close> for a string: a leading \<^verbatim>\<open>?\<close> is dropped, the rest is
  split at \<^verbatim>\<open>&\<close>, empty fields are skipped. The list keeps the order and the duplicates.
\<close>

definition URLSearchParams :: "jsstring \<Rightarrow> (jsstring \<times> jsstring) list" where
  "URLSearchParams init =
     (let s = (case init of [] \<Rightarrow> [] | c # cs \<Rightarrow> if c = 63 then cs else init)
      in map (\<lambda>part. (form_decode (key_part part), form_decode (value_part part)))
           (filter (\<lambda>part. part \<noteq> []) (split_on 38 s)))"

definition params_get :: "(jsstring \<times> jsstring) list \<Rightarrow> jsstring \<Rightarrow> jsstring option" where
  "params_get params name = map_option snd (find (\<lambda>e. fst e = name) params)"

definition params_delete :: "(jsstring \<times> jsstring) list \<Rightarrow> jsstring \<Rightarrow> (jsstring \<times> jsstring) list" where
  "params_delete params name = filter (\<lambda>e. fst e \<noteq> name) params"

text \<open>
  \<^verbatim>\<open>decodeURIComponent\<close> (ECMAScript Decode with an empty set of preserved escapes).
  \<open>None\<close> is the \<^verbatim>\<open>URIError\<close> it throws: at a \<^verbatim>\<open>%\<close> that is not followed by two hex
  digits, and at escaped bytes that are not the UTF-8 encoding of one code point.
\<close>

fun parse_escape :: "jsstring \<Rightarrow> (nat \<times> jsstring) option" where
  "parse_escape (p # h1 # h2 # rest) =
     (if p = 37 \<and> hex_digit h1 \<and> hex_digit h2
      then Some (16 * hex_value h1 + hex_value h2, rest) else None)"
| "parse_escape _ = None"

fun take_escapes :: "nat \<Rightarrow> jsstring \<Rightarrow> (bytes \<times> jsstring) option" where
  "take_escapes 0 s = Some ([], s)"
| "take_escapes (Suc n) s =
     (case parse_escape s of
        None \<Rightarrow> None
      | Some (b, rest) \<Rightarrow>
          (case take_escapes n rest of
             None \<Rightarrow> None
           | Some (bs, rest') \<Rightarrow> Some (b # bs, rest')))"

text \<open>The number of leading 1 bits of a byte; 5 stands for any number above 4.\<close>

definition leading_ones :: "nat \<Rightarrow> nat" where
  "leading_ones b =
     (if b < 128 then 0 else if b < 192 then 1 else if b < 224 then 2
      else if b < 240 then 3 else if b < 248 then 4 else 5)"

definition continuation :: "nat \<Rightarrow> bool" where
  "continuation b \<longleftrightarrow> 128 \<le> b \<and> b \<le> 191"

text \<open>The code point of a well-formed UTF-8 byte sequence of two to four bytes.\<close>

definition utf8_code_point :: "bytes \<Rightarrow> nat option" where
  "utf8_code_point bs =
     (case bs of
        [b1, b2] \<Rightarrow>
          if 194 \<le> b1 \<and> b1 \<le> 223 \<and> continuation b2
          then Some (b1 mod 32 * 64 + b2 mod 64) else None
      | [b1, b2, b3] \<Rightarrow>
          if 224 \<le> b1 \<and> b1 \<le> 239 \<and> (if b1 = 224 then 160 else 128) \<le> b2 \<and>
             b2 \<le> (if b1 = 237 then 159 else 191) \<and> continuation b3
          then Some ((b1 mod 16 * 64 + b2 mod 64) * 64 + b3 mod 64) else None
      | [b1, b2, b3, b4] \<Rightarrow>
          if 240 \<le> b1 \<and> b1 \<le> 244 \<and> (if b1 = 240 then 144 else 128) \<le> b2 \<and>
             b2 \<le> (if b1 = 244 then 143 else 191) \<and> continuation b3 \<and> continuation b4
          then Some (((b1 mod 8 * 64 + b2 mod 64) * 64 + b3 mod 64) * 64 + b4 mod 64) else None
      | _ \<Rightarrow> None)"

lemma parse_escape_shorter: "parse_escape s = Some (b, rest) \<Longrightarrow> length rest < length s"
  by (cases s rule: parse_escape.cases) (auto split: if_splits)

lemma take_escapes_shorter: "take_escapes n s = Some (bs, rest) \<Longrightarrow> length rest \<le> length s"
proof (induction n arbitrary: s bs rest)
  case 0
  then show ?case by simp
next
  case (Suc n)
  then show ?case
    by (fastforce split: option.splits prod.splits dest: parse_escape_shorter)
qed

function decodeURIComponent :: "jsstring \<Rightarrow> jsstring option" where
  "decodeURIComponent [] = Some []"
| "decodeURIComponent (c # cs) =
     (if c \<noteq> 37 then map_option ((#) c) (decodeURIComponent cs)
      else
        (case parse_escape (c # cs) of
           None \<Rightarrow> None
         | Some (b, rest) \<Rightarrow>
             if leading_ones b = 0 then map_option ((#) b) (decodeURIComponent rest)
             else if leading_ones b = 1 \<or> 4 < leading_ones b then None
             else
               (case take_escapes (leading_ones b - 1) rest of
                  None \<Rightarrow> None
                | Some (octets, rest') \<Rightarrow>
                    (case utf8_code_point (b # octets) of
                       None \<Rightarrow> None
                     | Some v \<Rightarrow> map_option ((@) (code_units v)) (decodeURIComponent rest')))))"
  by pat_completeness auto
termination
proof (relation "measure length")
  show "wf (measure length)" by simp
next
  fix c :: nat and cs :: jsstring
  show "(cs, c # cs) \<in> measure length" by simp
next
  fix c :: nat and cs x2 y :: jsstring and x :: "nat \<times> jsstring" and b :: nat
  assume "parse_escape (c # cs) = Some x" "(b, y) = x"
  then have "length y < length (c # cs)"
    using parse_escape_shorter [of "c # cs" b y] by simp
  then show "(y, c # cs) \<in> measure length" by simp
next
  fix c :: nat and cs y ya :: jsstring and x :: "nat \<times> jsstring" and b :: nat
    and xa :: "bytes \<times> jsstring" and octets :: bytes and v :: nat
  assume "parse_escape (c # cs) = Some x" "(b, y) = x"
    "take_escapes (leading_ones b - 1) y = Some xa" "(octets, ya) = xa"
  then have "length y < length (c # cs)" "length ya \<le> length y"
    using parse_escape_shorter [of "c # cs" b y]
      take_escapes_shorter [of "leading_ones b - 1" y octets ya] by simp_all
  then show "(ya, c # cs) \<in> measure length" by simp
qed

text \<open>
  \<^verbatim>\<open>parseInt(s, 10)\<close>: leading white space and one sign are skipped, the longest prefix
  of decimal digits is read; \<open>None\<close> is \<^verbatim>\<open>NaN\<close>, the result when there is no digit.
\<close>

definition parseInt10 :: "jsstring \<Rightarrow> int option" where
  "parseInt10 s =
     (let t = dropWhile is_js_space s;
          negative = (case t of [] \<Rightarrow> False | c # _ \<Rightarrow> c = 45);
          u = (case t of [] \<Rightarrow> [] | c # cs \<Rightarrow> if c = 45 \<or> c = 43 then cs else t);
          digits = takeWhile (\<lambda>c. 48 \<le> c \<and> c \<le> 57) u
      in if digits = [] then None
         else Some ((if negative then - 1 else 1) *
                    foldl (\<lambda>a d. 10 * a + int (d - 48)) 0 digits))"

text \<open>\<^verbatim>\<open>xs.join(sep)\<close> for a separator of one code unit.\<close>

fun join_with :: "nat \<Rightarrow> jsstring list \<Rightarrow> jsstring" where
  "join_with sep [] = []"
| "join_with sep [x] = x"
| "join_with sep (x # y # ys) = x @ sep # join_with sep (y # ys)"

text \<open>
  \<^verbatim>\<open>Array.prototype.sort()\<close> without a comparator orders the elements by their string
  conversions, compared code unit by code unit, and is stable. An entry \<^verbatim>\<open>[k, v]\<close>
  converts to \<^verbatim>\<open>k + "," + v\<close>.
\<close>

definition entry_string :: "jsstring \<times> jsstring \<Rightarrow> jsstring" where
  "entry_string e = fst e @ 44 # snd e"

definition sort_entries :: "(jsstring \<times> jsstring) list \<Rightarrow> (jsstring \<times> jsstring) list" where
  "sort_entries es = sort_key entry_string es"

section \<open>The display-name pattern\<close>

text \<open>
  The pattern is \<^verbatim>\<open>/^[A-Za-z?-??-???0-9_-]{4,15}$/\<close>, where the source has, in
  place of the question marks, the Cyrillic ranges U+0410-U+042F and U+0430-U+044F and the
  letters U+0401 and U+0451. The pattern has no flags, so the class is matched
  against single code units, \<^verbatim>\<open>^\<close> is the start and \<^verbatim>\<open>$\<close> the end of the input.
\<close>

definition name_class :: "nat \<Rightarrow> bool" where
  "name_class c \<longleftrightarrow>
     (65 \<le> c \<and> c \<le> 90) \<or> (97 \<le> c \<and> c \<le> 122) \<or>
     (1040 \<le> c \<and> c \<le> 1071) \<or> (1072 \<le> c \<and> c \<le> 1103) \<or> c = 1025 \<or> c = 1105 \<or>
     (48 \<le> c \<and> c \<le> 57) \<or> c = 95 \<or> c = 45"

text \<open>
  Matching \<^verbatim>\<open>C{lo,hi}$\<close> at the current position: with input left, the end anchor
  cannot match, so one more iteration of the class is the only way on; at the end of the
  input the lower bound must have been reached.
\<close>

fun match_rep_end :: "(nat \<Rightarrow> bool) \<Rightarrow> nat \<Rightarrow> nat \<Rightarrow> jsstring \<Rightarrow> bool" where
  "match_rep_end cls lo hi [] = (lo = 0)"
| "match_rep_end cls lo hi (c # cs) = (0 < hi \<and> cls c \<and> match_rep_end cls (lo - 1) (hi - 1) cs)"

definition regex_name_test :: "jsstring \<Rightarrow> bool" where
  "regex_name_test name = match_rep_end name_class 4 15 name"

text \<open>
  The claim's wording of the rule, for comparison with the pattern: 4 to 15 characters,
  each a Latin letter (A-Z, a-z), a Cyrillic letter (U+0410-U+044F, U+0401, U+0451), a
  digit, an underscore or a hyphen.
\<close>

definition latin_letter :: "nat \<Rightarrow> bool" where
  "latin_letter c \<longleftrightarrow> (65 \<le> c \<and> c \<le> 90) \<or> (97 \<le> c \<and> c \<le> 122)"

definition cyrillic_letter :: "nat \<Rightarrow> bool" where
  "cyrillic_letter c \<longleftrightarrow> (1040 \<le> c \<and> c \<le> 1103) \<or> c = 1025 \<or> c = 1105"

definition ascii_digit :: "nat \<Rightarrow> bool" where
  "ascii_digit c \<longleftrightarrow> 48 \<le> c \<and> c \<le> 57"

definition spec_name_char :: "nat \<Rightarrow> bool" where
  "spec_name_char c \<longleftrightarrow> latin_letter c \<or> cyrillic_letter c \<or> ascii_digit c \<or> c = 95 \<or> c = 45"

definition spec_name_accepted :: "jsstring \<Rightarrow> bool" where
  "spec_name_accepted s \<longleftrightarrow>
     4 \<le> length (js_trim s) \<and> length (js_trim s) \<le> 15 \<and> list_all spec_name_char (js_trim s)"

section \<open>Request, response and the leaderboard store\<close>

text \<open>
  A JavaScript number: \<^verbatim>\<open>NaN\<close>, the two infinities, or a finite value. Every finite
  double is a rational number, and the handler only compares and copies numbers
  (\<^verbatim>\<open>Math.max\<close>, \<^verbatim>\<open>??\<close>), which is exact on doubles; so a finite number is held by
  its rational value.
\<close>

datatype number = NaN | NegInfinity | Finite rat | Infinity

text \<open>
  \<^verbatim>\<open>Math.max(a, b)\<close>: \<^verbatim>\<open>NaN\<close> when either argument is \<^verbatim>\<open>NaN\<close>, else the larger one.
\<close>

fun Math_max :: "number \<Rightarrow> number \<Rightarrow> number" where
  "Math_max NaN _ = NaN"
| "Math_max _ NaN = NaN"
| "Math_max Infinity _ = Infinity"
| "Math_max _ Infinity = Infinity"
| "Math_max NegInfinity b = b"
| "Math_max a NegInfinity = a"
| "Math_max (Finite x) (Finite y) = Finite (max x y)"

text \<open>
  A number in JSON text (\<^verbatim>\<open>JSON.stringify\<close>), which is how the client sends a record:
  \<^verbatim>\<open>NaN\<close> and the infinities are written \<^verbatim>\<open>null\<close> (\<open>None\<close>).
\<close>

fun json_number :: "number \<Rightarrow> rat option" where
  "json_number (Finite x) = Some x"
| "json_number _ = None"

text \<open>
  The destructured request body. \<open>None\<close> stands for a member that is missing or
  \<^verbatim>\<open>null\<close> (the handler treats both alike: \<^verbatim>\<open>!initData\<close>, \<^verbatim>\<open>runScore ?? 0\<close>,
  \<^verbatim>\<open>typeof displayName === "string"\<close>); \<open>displayName = None\<close> also stands for a
  member that is not a string. An \<^verbatim>\<open>initData\<close> that is not a string is outside the
  model.

  The handler reads a score member in one place only, as \<^verbatim>\<open>Number(runScore ?? 0)\<close>. So
  a score member that is there is held as the number \<^verbatim>\<open>Number\<close> makes of it: a JSON
  number is itself (\<^verbatim>\<open>Infinity\<close> for a numeral beyond the doubles, such as
  \<^verbatim>\<open>1e999\<close>), and a string, a boolean, an array or an object is the number it converts
  to, which is \<^verbatim>\<open>NaN\<close> for a text such as \<^verbatim>\<open>"abc"\<close>.
\<close>

record payload =
  req_initData :: "jsstring option"
  req_runScore :: "number option"
  req_totalScore :: "number option"
  req_displayName :: "jsstring option"

text \<open>
  What \<^verbatim>\<open>await req.json()\<close> yields: a rejected promise (the body is not JSON), the
  value \<^verbatim>\<open>null\<close>, or a value whose members can be read.
\<close>

datatype req_body = NotJson | JsonNull | JsonValue payload

record request =
  http_method :: jsstring
  body :: req_body

record env =
  SUPABASE_URL :: "jsstring option"
  SUPABASE_SERVICE_ROLE_KEY :: "jsstring option"
  TELEGRAM_BOT_TOKEN :: "jsstring option"

text \<open>
  A row of the table as JSON: the two score columns hold a number or \<^verbatim>\<open>null\<close>.
\<close>

record row =
  telegram_id :: json
  username :: "jsstring option"
  max_score :: "rat option"
  total_score :: "rat option"
  updated_at :: int

datatype js_exception = URIError | TypeError

datatype resp_body =
    OkText
  | Error jsstring
  | ErrorDetails jsstring jsstring
  | Thrown js_exception
  | OkAck
  | OkMe "row option"

record response =
  status :: nat
  content :: resp_body

text \<open>
  The \<^verbatim>\<open>record\<close> object handed to \<^verbatim>\<open>upsert\<close>; \<open>r_username = None\<close> is the object
  without a \<^verbatim>\<open>username\<close> member.
\<close>

record upsert_record =
  r_telegram_id :: json
  r_max_score :: number
  r_total_score :: number
  r_updated_at :: int
  r_username :: "jsstring option"

type_synonym leaderboard = "json \<Rightarrow> row option"

text \<open>
  How the store answers one request: whether the first read, the write and the follow-up
  read report an error, and whether the write's answer carries the written row.
\<close>

record store_faults =
  read_fails :: bool
  upsert_error :: "jsstring option"
  upsert_data_empty :: bool
  refetch_fails :: bool

definition no_faults :: store_faults where
  "no_faults = \<lparr>read_fails = False, upsert_error = None, upsert_data_empty = False,
     refetch_fails = False\<rparr>"

text \<open>
  The store is not code of the repository: it is the table \<^verbatim>\<open>leaderboard\<close> of an
  external service, reached through the supabase-js client (which the model takes to be
  created without fault from the two environment variables). It is modelled as the keyed
  record service of the specification's section 6: a point read by the unique key and an
  upsert by the unique key.

  \<^verbatim>\<open>.select(...).eq("telegram_id", id).maybeSingle()\<close> yields \<^verbatim>\<open>data\<close>, the row or
  \<^verbatim>\<open>null\<close>; on an error \<^verbatim>\<open>data\<close> is \<^verbatim>\<open>null\<close>. The handler reads \<^verbatim>\<open>data\<close> only.
\<close>

definition select_maybeSingle :: "bool \<Rightarrow> leaderboard \<Rightarrow> json \<Rightarrow> row option" where
  "select_maybeSingle fails tbl k = (if fails then None else tbl k)"

text \<open>
  \<^verbatim>\<open>upsert(record, { onConflict: "telegram_id" })\<close> inserts the record, or on an existing
  key overwrites the columns the record names and keeps the others (the client sends the
  record with the resolution "merge duplicates"); a column the record of a new row does
  not name is \<^verbatim>\<open>null\<close>. The columns hold what the JSON text of the record says. The
  model returns the table and the written row. A write that reports an error leaves the
  table as it was.
\<close>

definition upsert :: "leaderboard \<Rightarrow> upsert_record \<Rightarrow> leaderboard \<times> row" where
  "upsert tbl r =
     (let old_name = (case tbl (r_telegram_id r) of None \<Rightarrow> None | Some old \<Rightarrow> username old);
          written = \<lparr>telegram_id = r_telegram_id r,
                     username = (case r_username r of None \<Rightarrow> old_name | Some n \<Rightarrow> Some n),
                     max_score = json_number (r_max_score r),
                     total_score = json_number (r_total_score r),
                     updated_at = r_updated_at r\<rparr>
      in (tbl(r_telegram_id r \<mapsto> written), written))"

text \<open>
  \<^verbatim>\<open>r.telegram_id === telegramId\<close>: primitives are compared by value, arrays and
  objects by identity, and a row's member is never the object \<^verbatim>\<open>JSON.parse\<close> made.
\<close>

fun strict_equal :: "json \<Rightarrow> json \<Rightarrow> bool" where
  "strict_equal (JArr _) _ = False"
| "strict_equal (JObj _) _ = False"
| "strict_equal a b = (a = b)"

section \<open>Reconciliation: reading the row, the maxima, the name, the write\<close>

text \<open>
  index.ts lines 120-144 and part_000 lines 145-169, the same text in both: read the
  current row, take the maxima, attach the name when the pattern accepts it.
\<close>

definition claimed_name :: "jsstring option \<Rightarrow> jsstring" where
  "claimed_name displayName = (case displayName of Some d \<Rightarrow> js_trim d | None \<Rightarrow> [])"

definition nameOk :: "jsstring option \<Rightarrow> bool" where
  "nameOk displayName = regex_name_test (claimed_name displayName)"

text \<open>
  \<^verbatim>\<open>cur?.max_score ?? 0\<close>: 0 when there is no row or the column is \<^verbatim>\<open>null\<close>.
\<close>

definition column_or_zero :: "row option \<Rightarrow> (row \<Rightarrow> rat option) \<Rightarrow> number" where
  "column_or_zero cur column =
     (case cur of
        None \<Rightarrow> Finite 0
      | Some c \<Rightarrow> (case column c of None \<Rightarrow> Finite 0 | Some x \<Rightarrow> Finite x))"

text \<open>\<^verbatim>\<open>Number(runScore ?? 0)\<close>, on a member held as the number it converts to.\<close>

definition Number_or_zero :: "number option \<Rightarrow> number" where
  "Number_or_zero member = (case member of None \<Rightarrow> Finite 0 | Some n \<Rightarrow> n)"

definition score_record :: "json \<Rightarrow> payload \<Rightarrow> int \<Rightarrow> store_faults \<Rightarrow> leaderboard \<Rightarrow> upsert_record" where
  "score_record telegramId p stamp f tbl =
     (let cur = select_maybeSingle (read_fails f) tbl telegramId;
          currentMax = column_or_zero cur max_score;
          currentTotal = column_or_zero cur total_score;
          nextMax = Math_max currentMax (Number_or_zero (req_runScore p));
          nextTotal = Math_max currentTotal (Number_or_zero (req_totalScore p));
          name = claimed_name (req_displayName p)
      in \<lparr>r_telegram_id = telegramId, r_max_score = nextMax, r_total_score = nextTotal,
          r_updated_at = stamp,
          r_username = (if cur = None \<and> nameOk (req_displayName p) then Some name
                        else if cur \<noteq> None \<and> nameOk (req_displayName p) then Some name
                        else None)\<rparr>)"

text \<open>index.ts lines 118-163: the write and the bare acknowledgment.\<close>

definition reconcile_index ::
  "json \<Rightarrow> payload \<Rightarrow> int \<Rightarrow> store_faults \<Rightarrow> leaderboard \<Rightarrow> response \<times> leaderboard" where
  "reconcile_index telegramId p stamp f tbl =
     (let record = score_record telegramId p stamp f tbl
      in case upsert_error f of
           Some message \<Rightarrow> (\<lparr>status = 400, content = Error message\<rparr>, tbl)
         | None \<Rightarrow> (\<lparr>status = 200, content = OkAck\<rparr>, fst (upsert tbl record)))"

text \<open>
  part_000 lines 143-202: the write, then the row out of the write's answer or, when it is
  not there, out of a follow-up read.
\<close>

definition reconcile_part000 ::
  "json \<Rightarrow> payload \<Rightarrow> int \<Rightarrow> store_faults \<Rightarrow> leaderboard \<Rightarrow> response \<times> leaderboard" where
  "reconcile_part000 telegramId p stamp f tbl =
     (let record = score_record telegramId p stamp f tbl
      in case upsert_error f of
           Some message \<Rightarrow> (\<lparr>status = 400, content = Error message\<rparr>, tbl)
         | None \<Rightarrow>
             (let (tbl', written) = upsert tbl record;
                  upsertData = (if upsert_data_empty f then [] else [written]);
                  me = find (\<lambda>r. strict_equal (telegram_id r) telegramId) upsertData;
                  me = (case me of
                          None \<Rightarrow> select_maybeSingle (refetch_fails f) tbl' telegramId
                        | Some r \<Rightarrow> Some r)
              in (\<lparr>status = 200, content = OkMe me\<rparr>, tbl')))"

section \<open>The two verifiers\<close>

text \<open>
  \<^verbatim>\<open>crypto.subtle.sign("HMAC", key, data)\<close> with SHA-256 is a parameter \<open>hmac\<close> of the
  model, a function from the key bytes and the message bytes to the tag bytes: every
  theorem holds for each such function. A \<^verbatim>\<open>CryptoKey\<close> is its raw key bytes.
\<close>

definition toHex :: "bytes \<Rightarrow> jsstring" where
  "toHex buffer =
     concat (map (\<lambda>b. [(if b div 16 < 10 then 48 + b div 16 else 87 + b div 16),
                         (if b mod 16 < 10 then 48 + b mod 16 else 87 + b mod 16)]) buffer)"

text \<open>
  index.ts lines 14-18: the tag is returned as a \<^verbatim>\<open>Uint8Array\<close>, whose elements are
  below 256.
\<close>

definition hmacSHA256 :: "(bytes \<Rightarrow> bytes \<Rightarrow> bytes) \<Rightarrow> bytes \<Rightarrow> jsstring \<Rightarrow> bytes" where
  "hmacSHA256 hmac key data = map (\<lambda>b. b mod 256) (hmac key (utf8_encode data))"

definition importHmacKey :: "jsstring \<Rightarrow> bytes" where
  "importHmacKey raw = utf8_encode raw"

text \<open>index.ts lines 44-56 and part_000 lines 54-66, the same text in both.\<close>

definition calcHash :: "(bytes \<Rightarrow> bytes \<Rightarrow> bytes) \<Rightarrow> jsstring \<Rightarrow> jsstring \<Rightarrow> jsstring" where
  "calcHash hmac botToken dataCheckString =
     (let keyWebAppData = importHmacKey botToken;
          secretKeyBytes = hmacSHA256 hmac keyWebAppData (js ''WebAppData'');
          signature = hmacSHA256 hmac secretKeyBytes dataCheckString
      in toHex signature)"

text \<open>index.ts lines 29-39: the claimed hash and the data-check string.\<close>

definition claimed_hash_index :: "jsstring \<Rightarrow> jsstring" where
  "claimed_hash_index initData =
     (case params_get (URLSearchParams initData) (js ''hash'') of None \<Rightarrow> [] | Some h \<Rightarrow> h)"

definition dataCheckString_index :: "jsstring \<Rightarrow> jsstring" where
  "dataCheckString_index initData =
     (let params = URLSearchParams initData;
          params = params_delete params (js ''hash'');
          params = params_delete params (js ''signature'');
          pairs = map (\<lambda>(k, v). k @ 61 # v) (sort_entries params)
      in join_with 10 pairs)"

definition verifyTelegramInitData_index ::
  "(bytes \<Rightarrow> bytes \<Rightarrow> bytes) \<Rightarrow> jsstring \<Rightarrow> jsstring \<Rightarrow> bool" where
  "verifyTelegramInitData_index hmac initData botToken =
     (calcHash hmac botToken (dataCheckString_index initData) = claimed_hash_index initData)"

text \<open>
  part_000 lines 30-42. \<^verbatim>\<open>params\<close> is a plain object: assigning to a key it has
  replaces the value, and assigning a string to \<^verbatim>\<open>__proto__\<close> adds no key (the
  accessor of ECMAScript's Annex B; on a runtime that removes the accessor the key would be
  an ordinary one, and the theorems about this parser leave the key out). The state
  of the loop is \<^verbatim>\<open>hash\<close> and \<^verbatim>\<open>params\<close>; \<open>None\<close> is the \<^verbatim>\<open>URIError\<close> of
  \<^verbatim>\<open>decodeURIComponent\<close>, which ends the function.
\<close>

fun object_update :: "(jsstring \<times> jsstring) list \<Rightarrow> jsstring \<Rightarrow> jsstring \<Rightarrow> (jsstring \<times> jsstring) list" where
  "object_update [] k v = [(k, v)]"
| "object_update ((k', v') # ps) k v =
     (if k' = k then (k, v) # ps else (k', v') # object_update ps k v)"

definition object_set :: "(jsstring \<times> jsstring) list \<Rightarrow> jsstring \<Rightarrow> jsstring \<Rightarrow> (jsstring \<times> jsstring) list" where
  "object_set params k v = (if k = js ''__proto__'' then params else object_update params k v)"

fun parse_parts ::
  "jsstring list \<Rightarrow> jsstring \<times> (jsstring \<times> jsstring) list \<Rightarrow>
   (jsstring \<times> (jsstring \<times> jsstring) list) option" where
  "parse_parts [] st = Some st"
| "parse_parts (part # parts) (hash, params) =
     (let key = key_part part; value = value_part part
      in if key = js ''hash'' then parse_parts parts (value, params)
         else if key \<noteq> js ''signature'' then
           (case decodeURIComponent value of
              None \<Rightarrow> None
            | Some decoded \<Rightarrow> parse_parts parts (hash, object_set params key decoded))
         else parse_parts parts (hash, params))"

definition parsed_part000 :: "jsstring \<Rightarrow> (jsstring \<times> (jsstring \<times> jsstring) list) option" where
  "parsed_part000 initData = parse_parts (split_on 38 initData) ([], [])"

text \<open>part_000 lines 44-48; \<^verbatim>\<open>params[k]\<close> of a key the object lacks is \<^verbatim>\<open>undefined\<close>.\<close>

definition object_get :: "(jsstring \<times> jsstring) list \<Rightarrow> jsstring \<Rightarrow> jsstring" where
  "object_get params k = (case map_of params k of None \<Rightarrow> js ''undefined'' | Some v \<Rightarrow> v)"

definition pairs_part000 :: "(jsstring \<times> jsstring) list \<Rightarrow> jsstring list" where
  "pairs_part000 params = map (\<lambda>k. k @ 61 # object_get params k) (sort (map fst params))"

definition dataCheckString_part000 :: "jsstring \<Rightarrow> jsstring option" where
  "dataCheckString_part000 initData =
     map_option (\<lambda>(hash, params). join_with 10 (pairs_part000 params)) (parsed_part000 initData)"

definition verifyTelegramInitData_part000 ::
  "(bytes \<Rightarrow> bytes \<Rightarrow> bytes) \<Rightarrow> jsstring \<Rightarrow> jsstring \<Rightarrow> bool option" where
  "verifyTelegramInitData_part000 hmac initData botToken =
     map_option (\<lambda>(hash, params). calcHash hmac botToken (join_with 10 (pairs_part000 params)) = hash)
       (parsed_part000 initData)"

text \<open>A field that takes part in signing: its key is neither \<^verbatim>\<open>hash\<close> nor \<^verbatim>\<open>signature\<close>.\<close>

definition signed_part :: "jsstring \<Rightarrow> bool" where
  "signed_part part \<longleftrightarrow> key_part part \<noteq> js ''hash'' \<and> key_part part \<noteq> js ''signature''"

section \<open>The request handlers\<close>

text \<open>
  \<^verbatim>\<open>JSON.parse\<close> is a parameter \<open>json_parse\<close> of the model; \<open>None\<close> is the
  \<^verbatim>\<open>SyntaxError\<close> it throws. \<^verbatim>\<open>user?.id\<close> is the member \<^verbatim>\<open>id\<close> of an object and
  \<^verbatim>\<open>undefined\<close> (\<open>None\<close>) for every other value.
\<close>

fun member_id :: "json \<Rightarrow> json option" where
  "member_id (JObj members) = map_of members (js ''id'')"
| "member_id _ = None"

fun truthy :: "json \<Rightarrow> bool" where
  "truthy JNull = False"
| "truthy (JBool b) = b"
| "truthy (JNum n) = (n \<noteq> 0)"
| "truthy (JStr s) = (s \<noteq> [])"
| "truthy (JArr _) = True"
| "truthy (JObj _) = True"

text \<open>index.ts lines 105-110 and part_000 lines 130-135, the same text in both.\<close>

definition telegramId_of :: "(jsstring \<Rightarrow> json option) \<Rightarrow> jsstring \<Rightarrow> json option" where
  "telegramId_of json_parse initData =
     (let params = URLSearchParams initData;
          userStr = (case params_get params (js ''user'') of None \<Rightarrow> [] | Some u \<Rightarrow> u);
          user = (if userStr \<noteq> []
                  then (case json_parse userStr of None \<Rightarrow> JNull | Some parsed \<Rightarrow> parsed)
                  else JNull)
      in member_id user)"

definition empty_payload :: payload where
  "empty_payload = \<lparr>req_initData = None, req_runScore = None, req_totalScore = None,
     req_displayName = None\<rparr>"

text \<open>
  \<^verbatim>\<open>!v\<close> for a value that is a string, \<^verbatim>\<open>undefined\<close> or \<^verbatim>\<open>null\<close>: the string when
  it is there and not empty.
\<close>

definition present :: "jsstring option \<Rightarrow> jsstring option" where
  "present v = (case v of None \<Rightarrow> None | Some x \<Rightarrow> if x = [] then None else Some x)"

text \<open>
  index.ts lines 64-170. The arguments are the platform (\<open>hmac\<close>, \<open>json_parse\<close>), the
  environment variables, the clock reading of the write, the answers of the store, the
  request and the table; the result is the response and the table afterwards.
\<close>

definition serve_index ::
  "(bytes \<Rightarrow> bytes \<Rightarrow> bytes) \<Rightarrow> (jsstring \<Rightarrow> json option) \<Rightarrow> env \<Rightarrow> int \<Rightarrow>
   store_faults \<Rightarrow> request \<Rightarrow> leaderboard \<Rightarrow> response \<times> leaderboard" where
  "serve_index hmac json_parse e stamp f req tbl =
     (if http_method req = js ''OPTIONS'' then (\<lparr>status = 200, content = OkText\<rparr>, tbl)
      else
        (case body req of
           JsonNull \<Rightarrow> (\<lparr>status = 500, content = Thrown TypeError\<rparr>, tbl)
         | _ \<Rightarrow>
             (let p = (case body req of JsonValue v \<Rightarrow> v | _ \<Rightarrow> empty_payload)
              in case present (req_initData p) of
                   None \<Rightarrow> (\<lparr>status = 400, content = Error (js ''Missing initData'')\<rparr>, tbl)
                 | Some initData \<Rightarrow>
                     (case (present (SUPABASE_URL e), present (SUPABASE_SERVICE_ROLE_KEY e),
                            present (TELEGRAM_BOT_TOKEN e)) of
                        (Some supabaseUrl, Some serviceRole, Some botToken) \<Rightarrow>
                          (let ok = verifyTelegramInitData_index hmac initData botToken
                           in if \<not> ok
                              then (\<lparr>status = 401,
                                     content = Error (js ''Invalid Telegram signature'')\<rparr>, tbl)
                              else
                                (case telegramId_of json_parse initData of
                                   None \<Rightarrow>
                                     (\<lparr>status = 400,
                                       content = Error (js ''No Telegram user'')\<rparr>, tbl)
                                 | Some telegramId \<Rightarrow>
                                     if \<not> truthy telegramId
                                     then (\<lparr>status = 400,
                                            content = Error (js ''No Telegram user'')\<rparr>, tbl)
                                     else reconcile_index telegramId p stamp f tbl))
                      | _ \<Rightarrow>
                          (\<lparr>status = 500,
                            content = ErrorDetails (js ''Server misconfigured'')
                                        (js ''Missing environment variables'')\<rparr>, tbl)))))"

text \<open>
  part_000 lines 74-209. \<open>now\<close> is \<^verbatim>\<open>Math.floor(Date.now() / 1000)\<close>. A comparison with
  \<^verbatim>\<open>NaN\<close> is false, so an \<^verbatim>\<open>auth_date\<close> without a digit passes the freshness check.
\<close>

definition authDate_of :: "jsstring \<Rightarrow> int option" where
  "authDate_of initData =
     (let urlParams = URLSearchParams initData
      in parseInt10 (case present (params_get urlParams (js ''auth_date'')) of
                       None \<Rightarrow> js ''0'' | Some a \<Rightarrow> a))"

definition stale :: "int \<Rightarrow> int option \<Rightarrow> bool" where
  "stale now authDate =
     (case authDate of None \<Rightarrow> False | Some a \<Rightarrow> now - a > 86400 \<or> now - a < 0)"

definition serve_part000 ::
  "(bytes \<Rightarrow> bytes \<Rightarrow> bytes) \<Rightarrow> (jsstring \<Rightarrow> json option) \<Rightarrow> env \<Rightarrow> int \<Rightarrow> int \<Rightarrow>
   store_faults \<Rightarrow> request \<Rightarrow> leaderboard \<Rightarrow> response \<times> leaderboard" where
  "serve_part000 hmac json_parse e now stamp f req tbl =
     (if http_method req = js ''OPTIONS'' then (\<lparr>status = 200, content = OkText\<rparr>, tbl)
      else
        (case body req of
           JsonNull \<Rightarrow> (\<lparr>status = 500, content = Thrown TypeError\<rparr>, tbl)
         | _ \<Rightarrow>
             (let p = (case body req of JsonValue v \<Rightarrow> v | _ \<Rightarrow> empty_payload)
              in case present (req_initData p) of
                   None \<Rightarrow> (\<lparr>status = 400, content = Error (js ''Missing initData'')\<rparr>, tbl)
                 | Some initData \<Rightarrow>
                     (case (present (SUPABASE_URL e), present (SUPABASE_SERVICE_ROLE_KEY e),
                            present (TELEGRAM_BOT_TOKEN e)) of
                        (Some supabaseUrl, Some serviceRole, Some botToken) \<Rightarrow>
                          if stale now (authDate_of initData)
                          then (\<lparr>status = 401,
                                 content = Error (js ''Expired or invalid auth_date'')\<rparr>, tbl)
                          else
                            (case verifyTelegramInitData_part000 hmac initData botToken of
                               None \<Rightarrow> (\<lparr>status = 500, content = Thrown URIError\<rparr>, tbl)
                             | Some cryptoOk \<Rightarrow>
                                 (case telegramId_of json_parse initData of
                                    None \<Rightarrow>
                                      (\<lparr>status = 400,
                                        content = Error (js ''No Telegram user'')\<rparr>, tbl)
                                  | Some telegramId \<Rightarrow>
                                      if \<not> truthy telegramId
                                      then (\<lparr>status = 400,
                                             content = Error (js ''No Telegram user'')\<rparr>, tbl)
                                      else reconcile_part000 telegramId p stamp f tbl))
                      | _ \<Rightarrow>
                          (\<lparr>status = 500,
                            content = ErrorDetails (js ''Server misconfigured'')
                                        (js ''Missing environment variables'')\<rparr>, tbl)))))"

text \<open>
  The condition of claim C8 on the \<^verbatim>\<open>user\<close> field, in terms of the values the handler
  computes: the field is absent or empty, or it is not parsable as JSON, or the parsed
  value has no member \<^verbatim>\<open>id\<close>, or that member is falsy (\<^verbatim>\<open>null\<close>, \<^verbatim>\<open>false\<close>, 0 or
  the empty string).
\<close>

definition identity_missing :: "(jsstring \<Rightarrow> json option) \<Rightarrow> jsstring \<Rightarrow> bool" where
  "identity_missing json_parse initData =
     (case params_get (URLSearchParams initData) (js ''user'') of
        None \<Rightarrow> True
      | Some u \<Rightarrow>
          u = [] \<or>
          (case json_parse u of
             None \<Rightarrow> True
           | Some v \<Rightarrow> (case member_id v of None \<Rightarrow> True | Some i \<Rightarrow> \<not> truthy i)))"

section \<open>Example data\<close>

definition example_row :: row where
  "example_row = \<lparr>telegram_id = JNum 42, username = Some (js ''kitty''), max_score = Some 10,
     total_score = Some 10, updated_at = 0\<rparr>"

definition example_table :: leaderboard where
  "example_table = Map.empty(JNum 42 \<mapsto> example_row)"

definition example_call :: "rat \<Rightarrow> rat \<Rightarrow> jsstring option \<Rightarrow> payload" where
  "example_call r t name =
     \<lparr>req_initData = None, req_runScore = Some (Finite r), req_totalScore = Some (Finite t),
      req_displayName = name\<rparr>"

definition example_env :: env where
  "example_env = \<lparr>SUPABASE_URL = Some (js ''https://db.example''),
     SUPABASE_SERVICE_ROLE_KEY = Some (js ''role''), TELEGRAM_BOT_TOKEN = Some (js ''123:abc'')\<rparr>"

text \<open>
  A request whose body is an object with the given token and the scores 10 and 10.
\<close>

definition post :: "jsstring \<Rightarrow> request" where
  "post token = \<lparr>http_method = js ''POST'',
     body = JsonValue \<lparr>req_initData = Some token, req_runScore = Some (Finite 10),
       req_totalScore = Some (Finite 10), req_displayName = None\<rparr>\<rparr>"

text \<open>
  A token of four fields, the same fields in another order, and its data-check string.
\<close>

definition example_token :: jsstring where
  "example_token =
     js ''query_id=AAH&user=%7B%22id%22%3A42%7D&auth_date=1700000000&hash=abcdef''"

definition example_token_permuted :: jsstring where
  "example_token_permuted =
     js ''hash=abcdef&auth_date=1700000000&user=%7B%22id%22%3A42%7D&query_id=AAH''"

definition example_dcs :: jsstring where
  "example_dcs =
     js ''auth_date=1700000000'' @ 10 # js ''query_id=AAH'' @ 10 # js ''user={\"id\":42}''"

text \<open>
  A token dated 1 January 1970 for the user 42, signed under the bot token of
  \<open>example_env\<close> with whatever function stands for HMAC-SHA256.
\<close>

definition ancient_token :: "(bytes \<Rightarrow> bytes \<Rightarrow> bytes) \<Rightarrow> jsstring" where
  "ancient_token hmac = js ''auth_date=0&user=%7B%22id%22%3A42%7D&hash='' @
     calcHash hmac (js ''123:abc'') (js ''auth_date=0'' @ 10 # js ''user={\"id\":42}'')"

text \<open>
  \<^verbatim>\<open>JSON.parse\<close> as far as the examples ask: its value on the text \<^verbatim>\<open>{"id":42}\<close>.
\<close>

definition parse_id_42 :: "jsstring \<Rightarrow> json option" where
  "parse_id_42 s = (if s = js ''{\"id\":42}'' then Some (JObj [(js ''id'', JNum 42)]) else None)"

text \<open>Two tokens without a \<^verbatim>\<open>user\<close> field, dated 2023 and 1970.\<close>

definition fresh_token :: jsstring where
  "fresh_token = js ''auth_date=1700000000&hash=abcdef''"

definition stale_token :: jsstring where
  "stale_token = js ''auth_date=0&hash=abc''"

text \<open>
  A request whose body is an object with the given token and score members, and no
  display name.
\<close>

definition submit :: "jsstring \<Rightarrow> number option \<Rightarrow> number option \<Rightarrow> request" where
  "submit token r t = \<lparr>http_method = js ''POST'',
     body = JsonValue \<lparr>req_initData = Some token, req_runScore = r, req_totalScore = t,
       req_displayName = None\<rparr>\<rparr>"

text \<open>
  Two tokens dated 2023 whose \<^verbatim>\<open>user\<close> field is the object \<^verbatim>\<open>{"id":"0"}\<close>, with a
  text in the place of the numeric id: one with an arbitrary hash, one signed under the
  bot token of \<open>example_env\<close>. With them, \<^verbatim>\<open>JSON.parse\<close> on that text.
\<close>

definition text_id_token :: jsstring where
  "text_id_token = js ''auth_date=1700000000&user=%7B%22id%22%3A%220%22%7D&hash=abcdef''"

definition signed_text_id_token :: "(bytes \<Rightarrow> bytes \<Rightarrow> bytes) \<Rightarrow> jsstring" where
  "signed_text_id_token hmac =
     js ''auth_date=1700000000&user=%7B%22id%22%3A%220%22%7D&hash='' @
     calcHash hmac (js ''123:abc'')
       (js ''auth_date=1700000000'' @ 10 # js ''user={\"id\":\"0\"}'')"

definition parse_id_text :: "jsstring \<Rightarrow> json option" where
  "parse_id_text s =
     (if s = js ''{\"id\":\"0\"}'' then Some (JObj [(js ''id'', JStr (js ''0''))]) else None)"

text \<open>The definitions that evaluate the parsing of a concrete token.\<close>

lemmas token_eval = js_def URLSearchParams_def form_decode_def utf8_decode_def key_part_def
  value_part_def utf8_bytes_def high_surrogate_def low_surrogate_def hex_digit_def hex_value_def
  code_units_def params_get_def params_delete_def sort_entries_def entry_string_def
  dataCheckString_index_def claimed_hash_index_def dataCheckString_part000_def
  parsed_part000_def pairs_part000_def object_get_def object_set_def leading_ones_def
  continuation_def utf8_code_point_def Let_def signed_part_def utf8_decode_from.simps
  decodeURIComponent.simps

section \<open>Properties of the platform functions\<close>

lemma utf8_encode_ascii: "\<forall>c\<in>set s. c < 128 \<Longrightarrow> utf8_encode s = s"
  by (induction s rule: utf8_encode.induct)
    (auto simp: utf8_bytes_def high_surrogate_def low_surrogate_def)

lemma percent_decode_Cons_other: "c \<noteq> 37 \<Longrightarrow> percent_decode (c # cs) = c # percent_decode cs"
  by (cases "(c # cs)" rule: percent_decode.cases) auto

lemma percent_decode_plain: "37 \<notin> set s \<Longrightarrow> percent_decode s = s"
  by (induction s) (auto simp: percent_decode_Cons_other)

lemma utf8_decode_from_ascii_Cons:
  "b < 128 \<Longrightarrow> utf8_decode_from 0 0 128 191 (b # bs) = b # utf8_decode_from 0 0 128 191 bs"
  by simp

lemma utf8_decode_ascii: "\<forall>c\<in>set s. c < 128 \<Longrightarrow> utf8_decode s = s"
  unfolding utf8_decode_def by (induction s) (simp_all add: utf8_decode_from_ascii_Cons del: utf8_decode_from.simps(2))

lemma form_decode_plain:
  assumes "\<forall>c\<in>set s. c < 128 \<and> c \<noteq> 37 \<and> c \<noteq> 43"
  shows "form_decode s = s"
proof -
  have "utf8_encode s = s" using assms by (simp add: utf8_encode_ascii)
  moreover have "map (\<lambda>b. if b = 43 then 32 else b) s = s"
    using assms by (induction s) auto
  moreover have "percent_decode s = s" using assms by (auto intro: percent_decode_plain)
  moreover have "utf8_decode s = s" using assms by (simp add: utf8_decode_ascii)
  ultimately show ?thesis by (simp add: form_decode_def)
qed

lemma percent_decode_escape:
  "parse_escape s = Some (b, rest) \<Longrightarrow> percent_decode s = b # percent_decode rest"
  by (cases s rule: parse_escape.cases) (auto split: if_splits)

lemma parse_escape_byte: "parse_escape s = Some (b, rest) \<Longrightarrow> b < 256"
  by (cases s rule: parse_escape.cases) (auto simp: hex_digit_def hex_value_def split: if_splits)

lemma percent_decode_escapes:
  "take_escapes n s = Some (bs, rest) \<Longrightarrow> percent_decode s = bs @ percent_decode rest"
proof (induction n arbitrary: s bs rest)
  case 0
  then show ?case by simp
next
  case (Suc n)
  then show ?case
    by (auto split: option.splits prod.splits simp: percent_decode_escape)
qed


lemma decode_start2:
  "194 \<le> b \<Longrightarrow> b \<le> 223 \<Longrightarrow>
   utf8_decode_from 0 0 128 191 (b # bs) = utf8_decode_from (b mod 32) 1 128 191 bs"
  by simp

lemma decode_start3:
  "224 \<le> b \<Longrightarrow> b \<le> 239 \<Longrightarrow>
   utf8_decode_from 0 0 128 191 (b # bs) =
     utf8_decode_from (b mod 16) 2 (if b = 224 then 160 else 128) (if b = 237 then 159 else 191) bs"
  by simp

lemma decode_start4:
  "240 \<le> b \<Longrightarrow> b \<le> 244 \<Longrightarrow>
   utf8_decode_from 0 0 128 191 (b # bs) =
     utf8_decode_from (b mod 8) 3 (if b = 240 then 144 else 128) (if b = 244 then 143 else 191) bs"
  by simp

lemma decode_last:
  "lo \<le> b \<Longrightarrow> b \<le> hi \<Longrightarrow>
   utf8_decode_from cp (Suc 0) lo hi (b # bs) =
     code_units (cp * 64 + b mod 64) @ utf8_decode_from 0 0 128 191 bs"
  by simp

lemma decode_more:
  "lo \<le> b \<Longrightarrow> b \<le> hi \<Longrightarrow> 1 < need \<Longrightarrow>
   utf8_decode_from cp need lo hi (b # bs) =
     utf8_decode_from (cp * 64 + b mod 64) (need - 1) 128 191 bs"
  by simp

declare utf8_decode_from.simps [simp del]
declare decodeURIComponent.simps [simp del]

lemma utf8_decode_from_code_point:
  assumes "utf8_code_point bs = Some v"
  shows "utf8_decode_from 0 0 128 191 (bs @ tail) = code_units v @ utf8_decode_from 0 0 128 191 tail"
proof -
  consider b1 b2 where "bs = [b1, b2]" | b1 b2 b3 where "bs = [b1, b2, b3]"
    | b1 b2 b3 b4 where "bs = [b1, b2, b3, b4]"
    using assms by (auto simp: utf8_code_point_def split: list.splits)
  then show ?thesis
  proof cases
    case 1
    then have "194 \<le> b1" "b1 \<le> 223" "128 \<le> b2" "b2 \<le> 191" "v = b1 mod 32 * 64 + b2 mod 64"
      using assms by (auto simp: utf8_code_point_def continuation_def split: if_splits)
    then show ?thesis using 1 by (simp add: decode_start2 decode_last)
  next
    case 2
    then have b: "224 \<le> b1" "b1 \<le> 239" "(if b1 = 224 then 160 else 128) \<le> b2"
      "b2 \<le> (if b1 = 237 then 159 else 191)" "128 \<le> b3" "b3 \<le> 191"
      "v = (b1 mod 16 * 64 + b2 mod 64) * 64 + b3 mod 64"
      using assms by (auto simp: utf8_code_point_def continuation_def split: if_splits)
    have "utf8_decode_from 0 0 128 191 (bs @ tail) =
        utf8_decode_from (b1 mod 16) 2 (if b1 = 224 then 160 else 128)
          (if b1 = 237 then 159 else 191) (b2 # b3 # tail)"
      using 2 b(1,2) by (simp add: decode_start3)
    also have "\<dots> = utf8_decode_from (b1 mod 16 * 64 + b2 mod 64) 1 128 191 (b3 # tail)"
      using b(3,4) by (simp add: decode_more)
    also have "\<dots> = code_units v @ utf8_decode_from 0 0 128 191 tail"
      using b(5,6,7) by (simp add: decode_last)
    finally show ?thesis .
  next
    case 3
    then have b: "240 \<le> b1" "b1 \<le> 244" "(if b1 = 240 then 144 else 128) \<le> b2"
      "b2 \<le> (if b1 = 244 then 143 else 191)" "128 \<le> b3" "b3 \<le> 191" "128 \<le> b4" "b4 \<le> 191"
      "v = ((b1 mod 8 * 64 + b2 mod 64) * 64 + b3 mod 64) * 64 + b4 mod 64"
      using assms by (auto simp: utf8_code_point_def continuation_def split: if_splits)
    have "utf8_decode_from 0 0 128 191 (bs @ tail) =
        utf8_decode_from (b1 mod 8) 3 (if b1 = 240 then 144 else 128)
          (if b1 = 244 then 143 else 191) (b2 # b3 # b4 # tail)"
      using 3 b(1,2) by (simp add: decode_start4)
    also have "\<dots> = utf8_decode_from (b1 mod 8 * 64 + b2 mod 64) 2 128 191 (b3 # b4 # tail)"
      using b(3,4) by (simp add: decode_more)
    also have "\<dots> = utf8_decode_from ((b1 mod 8 * 64 + b2 mod 64) * 64 + b3 mod 64) 1 128 191
        (b4 # tail)"
      using b(5,6) by (simp add: decode_more)
    also have "\<dots> = code_units v @ utf8_decode_from 0 0 128 191 tail"
      using b(7,8,9) by (simp add: decode_last)
    finally show ?thesis .
  qed
qed


lemma parse_escape_rest: "parse_escape s = Some (b, rest) \<Longrightarrow> set rest \<subseteq> set s"
  by (cases s rule: parse_escape.cases) (auto split: if_splits)

lemma take_escapes_rest: "take_escapes n s = Some (bs, rest) \<Longrightarrow> set rest \<subseteq> set s"
proof (induction n arbitrary: s bs rest)
  case 0
  then show ?case by simp
next
  case (Suc n)
  then show ?case
    by (fastforce split: option.splits prod.splits dest: parse_escape_rest)
qed

lemma decoders_agree:
  assumes "decodeURIComponent s = Some w" and "\<forall>c\<in>set s. c < 128"
  shows "utf8_decode (percent_decode s) = w"
  using assms
proof (induction "length s" arbitrary: s w rule: less_induct)
  case less
  show ?case
  proof (cases s)
    case Nil
    then show ?thesis
      using less.prems(1)
      by (simp add: decodeURIComponent.simps utf8_decode_def utf8_decode_from.simps)
  next
    case (Cons c cs)
    show ?thesis
    proof (cases "c = 37")
      case False
      then obtain w' where w': "decodeURIComponent cs = Some w'" "w = c # w'"
        using less.prems(1) Cons by (auto simp: decodeURIComponent.simps)
      have "utf8_decode (percent_decode cs) = w'"
        using less.hyps [of cs w'] w'(1) less.prems(2) Cons by simp
      moreover have "c < 128" using less.prems(2) Cons by simp
      ultimately show ?thesis
        using False w' Cons
        by (simp add: percent_decode_Cons_other utf8_decode_def utf8_decode_from_ascii_Cons)
    next
      case True
      then obtain b rest where esc: "parse_escape s = Some (b, rest)"
        using less.prems(1) Cons by (auto simp: decodeURIComponent.simps split: option.splits)
      have rest_ascii: "\<forall>c\<in>set rest. c < 128"
        using parse_escape_rest [OF esc] less.prems(2) by auto
      have rest_shorter: "length rest < length s"
        using esc by (rule parse_escape_shorter)
      have pd: "percent_decode s = b # percent_decode rest"
        using esc by (rule percent_decode_escape)
      have unfold: "decodeURIComponent s =
          (if leading_ones b = 0 then map_option ((#) b) (decodeURIComponent rest)
           else if leading_ones b = 1 \<or> 4 < leading_ones b then None
           else
             (case take_escapes (leading_ones b - 1) rest of
                None \<Rightarrow> None
              | Some (octets, rest') \<Rightarrow>
                  (case utf8_code_point (b # octets) of
                     None \<Rightarrow> None
                   | Some v \<Rightarrow> map_option ((@) (code_units v)) (decodeURIComponent rest'))))"
        using True Cons esc by (simp add: decodeURIComponent.simps)
      show ?thesis
      proof (cases "leading_ones b = 0")
        case l0: True
        then have b: "b < 128" by (auto simp: leading_ones_def split: if_splits)
        obtain w' where w': "decodeURIComponent rest = Some w'" "w = b # w'"
          using less.prems(1) unfold l0 by auto
        have "utf8_decode (percent_decode rest) = w'"
          using less.hyps [OF rest_shorter w'(1)] rest_ascii by simp
        then show ?thesis
          using pd w' b by (simp add: utf8_decode_def utf8_decode_from_ascii_Cons)
      next
        case l1: False
        then have l: "\<not> (leading_ones b = 1 \<or> 4 < leading_ones b)"
          using less.prems(1) unfold by (auto split: if_splits)
        obtain octets rest' where te:
          "take_escapes (leading_ones b - 1) rest = Some (octets, rest')"
          using less.prems(1) unfold l1 l by (auto split: option.splits)
        obtain v where v: "utf8_code_point (b # octets) = Some v"
          using less.prems(1) unfold l1 l te by (auto split: option.splits)
        obtain w' where w': "decodeURIComponent rest' = Some w'" "w = code_units v @ w'"
          using less.prems(1) unfold l1 l te v by auto
        have rest'_ascii: "\<forall>c\<in>set rest'. c < 128"
          using take_escapes_rest [OF te] rest_ascii by auto
        have "length rest' < length s"
          using take_escapes_shorter [OF te] rest_shorter by simp
        then have "utf8_decode (percent_decode rest') = w'"
          using less.hyps [of rest' w'] w'(1) rest'_ascii by simp
        moreover have "percent_decode rest = octets @ percent_decode rest'"
          using te by (rule percent_decode_escapes)
        ultimately show ?thesis
          using pd w' utf8_decode_from_code_point [OF v, of "percent_decode rest'"]
          by (simp add: utf8_decode_def)
      qed
    qed
  qed
qed

lemma form_decode_decoded:
  assumes "decodeURIComponent s = Some w" and "\<forall>c\<in>set s. c < 128 \<and> c \<noteq> 43"
  shows "form_decode s = w"
proof -
  have "utf8_encode s = s" using assms(2) by (simp add: utf8_encode_ascii)
  moreover have "map (\<lambda>b. if b = 43 then 32 else b) s = s"
    using assms(2) by (induction s) auto
  ultimately show ?thesis
    using decoders_agree [OF assms(1)] assms(2) by (simp add: form_decode_def)
qed

section \<open>Properties of the default sort\<close>

lemma takeWhile_before: "c \<notin> set k \<Longrightarrow> takeWhile (\<lambda>x. x \<noteq> c) (k @ c # v) = k"
  by (induction k) auto

lemma dropWhile_before: "c \<notin> set k \<Longrightarrow> dropWhile (\<lambda>x. x \<noteq> c) (k @ c # v) = c # v"
  by (induction k) auto

lemma entry_string_inj:
  assumes "44 \<notin> set (fst a)" and "44 \<notin> set (fst b)" and "entry_string a = entry_string b"
  shows "a = b"
proof -
  have "fst a = fst b"
    using takeWhile_before [OF assms(1), of "snd a"] takeWhile_before [OF assms(2), of "snd b"]
      assms(3) by (simp add: entry_string_def)
  then show ?thesis using assms(3) by (simp add: entry_string_def prod_eq_iff)
qed

lemma sort_key_permuted:
  assumes "mset xs = mset ys" and "inj_on f (set xs)"
  shows "sort_key f xs = sort_key f ys"
  by (rule sort_key_inj_key_eq) (use assms in simp_all)

lemma key_less_entry:
  assumes "\<forall>c\<in>set k1. 44 < c" and "\<forall>c\<in>set k2. 44 < c" and "k1 < k2"
  shows "k1 @ 44 # v1 < k2 @ 44 # v2"
  using assms
proof (induction k1 arbitrary: k2)
  case Nil
  then show ?case by (cases k2) auto
next
  case (Cons a as)
  then show ?case by (cases k2) auto
qed

lemma sorted_entries_of_sorted_keys:
  assumes "sorted (map fst es)" and "distinct (map fst es)"
    and "\<forall>e\<in>set es. \<forall>c\<in>set (fst e). 44 < c"
  shows "sorted (map entry_string es)"
proof -
  have "sorted_wrt (<) (map fst es)" using assms(1,2) by (simp add: strict_sorted_iff)
  then have "sorted_wrt (\<lambda>a b. fst a < fst b) es" by (simp add: sorted_wrt_map)
  then have "sorted_wrt (\<lambda>a b. entry_string a \<le> entry_string b) es"
  proof (rule sorted_wrt_mono_rel [rotated])
    fix a b assume "a \<in> set es" "b \<in> set es" "fst a < fst b"
    then show "entry_string a \<le> entry_string b"
      using key_less_entry [of "fst a" "fst b" "snd a" "snd b"] assms(3)
      by (simp add: entry_string_def less_imp_le)
  qed
  then show ?thesis by (simp add: sorted_wrt_map)
qed

lemma sort_entries_by_key:
  assumes "distinct (map fst es)" and "\<forall>e\<in>set es. \<forall>c\<in>set (fst e). 44 < c"
  shows "sort_entries es = sort_key fst es"
  unfolding sort_entries_def
proof (rule sort_key_inj_key_eq)
  show "mset es = mset (sort_key fst es)" by simp
  show "inj_on entry_string (set es)"
  proof (rule inj_onI)
    fix a b assume "a \<in> set es" "b \<in> set es" "entry_string a = entry_string b"
    then show "a = b" using assms(2) entry_string_inj [of a b] by fastforce
  qed
  show "sorted (map entry_string (sort_key fst es))"
    by (rule sorted_entries_of_sorted_keys) (use assms in \<open>simp_all add: distinct_map\<close>)
qed

lemma sort_map_fst: "sort (map fst es) = map fst (sort_key fst es)"
proof (rule sort_key_inj_key_eq)
  show "mset (map fst es) = mset (map fst (sort_key fst es))" by simp
  show "inj_on (\<lambda>x. x) (set (map fst es))" by simp
  show "sorted (map (\<lambda>x. x) (map fst (sort_key fst es)))" by simp
qed

lemma sort_key_fst_lookup:
  assumes "distinct (map fst es)"
  shows "sort_key fst es = map (\<lambda>k. (k, the (map_of es k))) (sort (map fst es))"
proof -
  have "\<forall>e\<in>set (sort_key fst es). (fst e, the (map_of es (fst e))) = e"
    using assms by (auto simp: prod_eq_iff)
  then have "map (\<lambda>e. (fst e, the (map_of es (fst e)))) (sort_key fst es) = sort_key fst es"
    by (intro map_idI) simp
  then show ?thesis by (simp add: sort_map_fst o_def)
qed

section \<open>Properties of the parsing loop of part_000\<close>

lemma map_of_object_update: "map_of (object_update ps k v) = (map_of ps)(k \<mapsto> v)"
  by (induction ps k v rule: object_update.induct) (auto simp: fun_eq_iff)

lemma keys_object_update: "fst ` set (object_update ps k v) = insert k (fst ` set ps)"
  by (induction ps k v rule: object_update.induct) auto

lemma distinct_object_update:
  "distinct (map fst ps) \<Longrightarrow> distinct (map fst (object_update ps k v))"
proof (induction ps k v rule: object_update.induct)
  case (1 k v)
  then show ?case by simp
next
  case (2 k' v' ps k v)
  then show ?case using keys_object_update [of ps k v] by (auto simp: image_iff)
qed

lemma distinct_object_set: "distinct (map fst ps) \<Longrightarrow> distinct (map fst (object_set ps k v))"
  by (simp add: object_set_def distinct_object_update)

lemma map_of_object_set:
  "map_of (object_set ps k v) = (if k = js ''__proto__'' then map_of ps else (map_of ps)(k \<mapsto> v))"
  by (simp add: object_set_def map_of_object_update)

lemma parse_parts_distinct:
  "parse_parts parts (h, ps) = Some (h', ps') \<Longrightarrow> distinct (map fst ps) \<Longrightarrow> distinct (map fst ps')"
proof (induction parts arbitrary: h ps)
  case Nil
  then show ?case by simp
next
  case (Cons part parts)
  then show ?case
    by (auto simp: Let_def distinct_object_set split: if_splits option.splits)
qed

lemma parse_parts_None:
  "parse_parts parts (h, ps) = None \<longleftrightarrow>
     (\<exists>p\<in>set parts. signed_part p \<and> decodeURIComponent (value_part p) = None)"
proof (induction parts arbitrary: h ps)
  case Nil
  then show ?case by simp
next
  case (Cons part parts)
  then show ?case
    by (auto simp: Let_def signed_part_def split: option.splits)
qed

lemma parse_parts_hash:
  assumes "parse_parts parts (h, ps) = Some (h', ps')" and "distinct (map key_part parts)"
  shows "h' = x \<longleftrightarrow>
     (\<exists>p\<in>set parts. key_part p = js ''hash'' \<and> value_part p = x) \<or>
     ((\<forall>p\<in>set parts. key_part p \<noteq> js ''hash'') \<and> h = x)"
  using assms
proof (induction parts arbitrary: h ps)
  case Nil
  then show ?case by simp
next
  case (Cons part parts)
  show ?case
  proof (cases "key_part part = js ''hash''")
    case True
    then have rest: "parse_parts parts (value_part part, ps) = Some (h', ps')"
      using Cons.prems(1) by (simp add: Let_def)
    have none: "\<forall>p\<in>set parts. key_part p \<noteq> js ''hash''"
      using Cons.prems(2) True by (auto simp: image_iff)
    show ?thesis
      using Cons.IH [OF rest] Cons.prems(2) none True by auto
  next
    case False
    then obtain ps1 where rest: "parse_parts parts (h, ps1) = Some (h', ps')"
      using Cons.prems(1) by (auto simp: Let_def split: if_splits option.splits)
    show ?thesis
      using Cons.IH [OF rest] Cons.prems(2) False by auto
  qed
qed

lemma parse_parts_params:
  assumes "parse_parts parts (h, ps) = Some (h', ps')" and "distinct (map key_part parts)"
  shows "map_of ps' k = Some v \<longleftrightarrow>
     (\<exists>p\<in>set parts. signed_part p \<and> key_part p = k \<and> k \<noteq> js ''__proto__'' \<and>
        decodeURIComponent (value_part p) = Some v) \<or>
     ((\<forall>p\<in>set parts. signed_part p \<and> k \<noteq> js ''__proto__'' \<longrightarrow> key_part p \<noteq> k) \<and>
        map_of ps k = Some v)"
  using assms
proof (induction parts arbitrary: h ps)
  case Nil
  then show ?case by simp
next
  case (Cons part parts)
  have others: "\<forall>p\<in>set parts. key_part p \<noteq> key_part part"
    using Cons.prems(2) by (auto simp: image_iff)
  have dist: "distinct (map key_part parts)" using Cons.prems(2) by simp
  show ?case
  proof (cases "signed_part part")
    case False
    then obtain h1 where rest: "parse_parts parts (h1, ps) = Some (h', ps')"
      using Cons.prems(1) by (auto simp: Let_def signed_part_def split: if_splits)
    show ?thesis
      using Cons.IH [OF rest dist] False by auto
  next
    case True
    then obtain d where d: "decodeURIComponent (value_part part) = Some d"
      and rest: "parse_parts parts (h, object_set ps (key_part part) d) = Some (h', ps')"
      using Cons.prems(1) by (auto simp: Let_def signed_part_def split: if_splits option.splits)
    show ?thesis
      using Cons.IH [OF rest dist] True d others
      by (auto simp: map_of_object_set split: if_splits)
  qed
qed

lemma option_eq_by_Some:
  assumes "\<And>v. (a = Some v) = (b = Some v)"
  shows "a = b"
proof (cases a)
  case None
  then have "b \<noteq> Some v" for v using assms [of v] by simp
  then show ?thesis using None by (cases b) auto
next
  case (Some x)
  then show ?thesis using assms [of x] by simp
qed

lemma pairs_part000_by_map:
  assumes "distinct (map fst ps)"
  shows "pairs_part000 ps =
     map (\<lambda>k. k @ 61 # (case map_of ps k of None \<Rightarrow> js ''undefined'' | Some v \<Rightarrow> v))
       (sorted_list_of_set (dom (map_of ps)))"
proof -
  have "dom (map_of ps) = set (map fst ps)"
    by (simp add: dom_map_of_conv_image_fst)
  moreover have "sorted_list_of_set (set (map fst ps)) = sort (remdups (map fst ps))"
    by (rule sorted_list_of_set_sort_remdups)
  ultimately have "sorted_list_of_set (dom (map_of ps)) = sort (map fst ps)"
    using assms by (simp only: distinct_remdups_id)
  then show ?thesis by (simp add: pairs_part000_def object_get_def)
qed

lemma parsed_part000_permuted:
  assumes "mset (split_on 38 t) = mset (split_on 38 t')"
    and "distinct (map key_part (split_on 38 t))"
  shows "(parsed_part000 t = None \<longleftrightarrow> parsed_part000 t' = None) \<and>
     (\<forall>h ps h' ps'. parsed_part000 t = Some (h, ps) \<and> parsed_part000 t' = Some (h', ps') \<longrightarrow>
        h = h' \<and> pairs_part000 ps = pairs_part000 ps')"
proof -
  have sets: "set (split_on 38 t) = set (split_on 38 t')"
    using assms(1) by (rule mset_eq_setD)
  have "mset (map key_part (split_on 38 t)) = mset (map key_part (split_on 38 t'))"
    using assms(1) by simp
  then have dist': "distinct (map key_part (split_on 38 t'))"
    using mset_eq_imp_distinct_iff [of "map key_part (split_on 38 t)"
        "map key_part (split_on 38 t')"] assms(2) by simp
  have none: "parsed_part000 t = None \<longleftrightarrow> parsed_part000 t' = None"
    unfolding parsed_part000_def parse_parts_None sets by (rule refl)
  have some: "h = h' \<and> pairs_part000 ps = pairs_part000 ps'"
    if a: "parsed_part000 t = Some (h, ps)" and b: "parsed_part000 t' = Some (h', ps')"
    for h ps h' ps'
  proof -
    have pa: "parse_parts (split_on 38 t) ([], []) = Some (h, ps)"
      and pb: "parse_parts (split_on 38 t') ([], []) = Some (h', ps')"
      using a b by (simp_all add: parsed_part000_def)
    have "(h' = h) = (h = h)"
      unfolding parse_parts_hash [OF pa assms(2), of h] parse_parts_hash [OF pb dist', of h] sets
      by (rule refl)
    then have "h' = h" by simp
    moreover have "map_of ps = map_of ps'"
    proof (rule ext)
      fix k
      have "(map_of ps k = Some v) = (map_of ps' k = Some v)" for v
        unfolding parse_parts_params [OF pa assms(2), of k v]
          parse_parts_params [OF pb dist', of k v] sets
        by (rule refl)
      then show "map_of ps k = map_of ps' k"
        by (rule option_eq_by_Some)
    qed
    moreover have "distinct (map fst ps)" "distinct (map fst ps')"
      using parse_parts_distinct [OF pa] parse_parts_distinct [OF pb] by simp_all
    ultimately show ?thesis by (simp add: pairs_part000_by_map)
  qed
  show ?thesis using none some by blast
qed

lemma part000_permuted:
  assumes "mset (split_on 38 t) = mset (split_on 38 t')"
    and "distinct (map key_part (split_on 38 t))"
  shows "dataCheckString_part000 t = dataCheckString_part000 t' \<and>
     verifyTelegramInitData_part000 hmac t botToken = verifyTelegramInitData_part000 hmac t' botToken"
proof (cases "parsed_part000 t")
  case None
  then have "parsed_part000 t' = None" using parsed_part000_permuted [OF assms] by simp
  then show ?thesis using None
    by (simp add: dataCheckString_part000_def verifyTelegramInitData_part000_def)
next
  case (Some a)
  then obtain h ps where a: "parsed_part000 t = Some (h, ps)" by (cases a) auto
  then obtain h' ps' where b: "parsed_part000 t' = Some (h', ps')"
    using parsed_part000_permuted [OF assms] by (cases "parsed_part000 t'") auto
  have "h = h' \<and> pairs_part000 ps = pairs_part000 ps'"
    using parsed_part000_permuted [OF assms] a b by blast
  then show ?thesis using a b
    by (simp add: dataCheckString_part000_def verifyTelegramInitData_part000_def)
qed

section \<open>Properties of the field list of index.ts\<close>

lemma split_on_not_Nil: "split_on sep s \<noteq> []"
  by (induction s) (auto split: list.splits)

lemma split_on_first:
  "c \<noteq> sep \<Longrightarrow> \<exists>p ps. split_on sep (c # cs) = (c # p) # ps"
  using split_on_not_Nil [of sep cs] by (cases "split_on sep cs") auto

lemma no_leading_question:
  assumes "\<forall>p\<in>set (split_on 38 t). take 1 p \<noteq> [63]"
  shows "(case t of [] \<Rightarrow> [] | c # cs \<Rightarrow> if c = 63 then cs else t) = t"
proof (cases t)
  case Nil
  then show ?thesis by simp
next
  case (Cons c cs)
  have "c \<noteq> 63"
  proof
    assume "c = 63"
    then obtain p ps where "split_on 38 t = (63 # p) # ps"
      using split_on_first [of 63 38 cs] Cons by auto
    then show False using assms by auto
  qed
  then show ?thesis using Cons by simp
qed

lemma URLSearchParams_fields:
  assumes "\<forall>p\<in>set (split_on 38 t). take 1 p \<noteq> [63]"
  shows "URLSearchParams t =
     map (\<lambda>part. (form_decode (key_part part), form_decode (value_part part)))
       (filter (\<lambda>part. part \<noteq> []) (split_on 38 t))"
  using no_leading_question [OF assms] by (simp add: URLSearchParams_def)

lemma find_by_filter: "find P xs = (case filter P xs of [] \<Rightarrow> None | x # _ \<Rightarrow> Some x)"
  by (induction xs) auto

lemma filter_permuted_short:
  assumes "mset xs = mset ys" and "length (filter P xs) \<le> 1"
  shows "filter P xs = filter P ys"
proof -
  have m: "mset (filter P xs) = mset (filter P ys)" using assms(1) by simp
  then have l: "length (filter P ys) = length (filter P xs)"
    by (metis size_mset)
  show ?thesis
  proof (cases "filter P xs")
    case Nil
    then show ?thesis using l by simp
  next
    case (Cons a as)
    then have as: "as = []" using assms(2) by simp
    then obtain b where b: "filter P ys = [b]"
      using l Cons by (cases "filter P ys") auto
    then show ?thesis using m Cons as by simp
  qed
qed

lemma index_permuted:
  assumes "mset (split_on 38 t) = mset (split_on 38 t')"
    and "\<forall>p\<in>set (split_on 38 t). take 1 p \<noteq> [63]"
    and "\<forall>e\<in>set (URLSearchParams t). 44 \<notin> set (fst e)"
    and "length (filter (\<lambda>e. fst e = js ''hash'') (URLSearchParams t)) \<le> 1"
  shows "dataCheckString_index t = dataCheckString_index t' \<and>
     claimed_hash_index t = claimed_hash_index t' \<and>
     verifyTelegramInitData_index hmac t botToken = verifyTelegramInitData_index hmac t' botToken"
proof -
  have sets: "set (split_on 38 t) = set (split_on 38 t')"
    using assms(1) by (rule mset_eq_setD)
  have q': "\<forall>p\<in>set (split_on 38 t'). take 1 p \<noteq> [63]"
    using assms(2) sets by simp
  have u: "mset (URLSearchParams t) = mset (URLSearchParams t')"
    using assms(1) by (simp add: URLSearchParams_fields [OF assms(2)] URLSearchParams_fields [OF q'])
  define es where "es = params_delete (params_delete (URLSearchParams t) (js ''hash'')) (js ''signature'')"
  define es' where "es' = params_delete (params_delete (URLSearchParams t') (js ''hash'')) (js ''signature'')"
  have "mset es = mset es'" using u by (simp add: es_def es'_def params_delete_def)
  moreover have "inj_on entry_string (set es)"
  proof (rule inj_onI)
    fix a b assume "a \<in> set es" "b \<in> set es" "entry_string a = entry_string b"
    then show "a = b"
      using assms(3) entry_string_inj [of a b] by (auto simp: es_def params_delete_def)
  qed
  ultimately have "sort_entries es = sort_entries es'"
    unfolding sort_entries_def by (rule sort_key_permuted)
  then have dcs: "dataCheckString_index t = dataCheckString_index t'"
    by (simp add: dataCheckString_index_def es_def es'_def)
  have "filter (\<lambda>e. fst e = js ''hash'') (URLSearchParams t) =
      filter (\<lambda>e. fst e = js ''hash'') (URLSearchParams t')"
    using u assms(4) by (rule filter_permuted_short)
  then have h: "claimed_hash_index t = claimed_hash_index t'"
    by (simp add: claimed_hash_index_def params_get_def find_by_filter)
  show ?thesis using dcs h by (simp add: verifyTelegramInitData_index_def)
qed

section \<open>Agreement of the two verifiers\<close>

lemma split_on_chars: "p \<in> set (split_on sep s) \<Longrightarrow> set p \<subseteq> set s"
proof (induction s arbitrary: p)
  case Nil
  then show ?case by simp
next
  case (Cons c cs)
  show ?case
  proof (cases "c = sep")
    case True
    then show ?thesis using Cons by auto
  next
    case False
    obtain q qs where q: "split_on sep cs = q # qs"
      using split_on_not_Nil [of sep cs] by (cases "split_on sep cs") auto
    then have "p = c # q \<or> p \<in> set qs" using Cons.prems False by simp
    then show ?thesis using Cons.IH [of q] Cons.IH [of p] q by auto
  qed
qed

lemma key_part_chars: "set (key_part p) \<subseteq> set p"
  by (auto simp: key_part_def dest: set_takeWhileD)

lemma value_part_chars: "set (value_part p) \<subseteq> set p"
  by (auto simp: value_part_def dest: in_set_dropD set_dropWhileD)

lemma sorted_pairs_by_map:
  assumes "distinct (map fst es)"
  shows "map (\<lambda>(k, v). k @ 61 # v) (sort_key fst es) = pairs_part000 es"
proof -
  have "map (\<lambda>(k, v). k @ 61 # v) (sort_key fst es) =
      map (\<lambda>k. k @ 61 # the (map_of es k)) (sort (map fst es))"
    by (simp add: sort_key_fst_lookup [OF assms] o_def)
  also have "\<dots> = map (\<lambda>k. k @ 61 # object_get es k) (sort (map fst es))"
  proof (rule map_cong [OF refl])
    fix k assume "k \<in> set (sort (map fst es))"
    then obtain v where "(k, v) \<in> set es" by auto
    then have "map_of es k = Some v" using assms by simp
    then show "k @ 61 # the (map_of es k) = k @ 61 # object_get es k"
      by (simp add: object_get_def)
  qed
  finally show ?thesis by (simp add: pairs_part000_def)
qed


lemma verifiers_agree_lemma:
  assumes ascii: "\<forall>c\<in>set t. c < 128 \<and> c \<noteq> 43"
    and lead: "take 1 t \<noteq> [63]"
    and nonempty: "[] \<notin> set (split_on 38 t)"
    and keys: "distinct (map key_part (split_on 38 t))"
    and key_chars: "\<forall>p\<in>set (split_on 38 t). \<forall>c\<in>set (key_part p). 44 < c"
    and proto: "\<forall>p\<in>set (split_on 38 t). key_part p \<noteq> js ''__proto__''"
    and decodable: "\<forall>p\<in>set (split_on 38 t). signed_part p \<longrightarrow>
        decodeURIComponent (value_part p) \<noteq> None"
    and hash_plain: "\<forall>p\<in>set (split_on 38 t). key_part p = js ''hash'' \<longrightarrow>
        37 \<notin> set (value_part p)"
  shows "\<exists>ps. parsed_part000 t = Some (claimed_hash_index t, ps) \<and>
           join_with 10 (pairs_part000 ps) = dataCheckString_index t"
proof -
  define parts where "parts = split_on 38 t"
  define g where "g = (\<lambda>part. (key_part part, form_decode (value_part part)))"
  have part_ascii: "\<forall>c\<in>set p. c < 128 \<and> c \<noteq> 43" if "p \<in> set parts" for p
    using split_on_chars [of p 38 t] that ascii by (auto simp: parts_def)
  have key_plain: "form_decode (key_part p) = key_part p" if "p \<in> set parts" for p
  proof (rule form_decode_plain)
    show "\<forall>c\<in>set (key_part p). c < 128 \<and> c \<noteq> 37 \<and> c \<noteq> 43"
      using key_chars part_ascii [OF that] key_part_chars [of p] that
      by (fastforce simp: parts_def)
  qed
  have strip: "(case t of [] \<Rightarrow> [] | c # cs \<Rightarrow> if c = 63 then cs else t) = t"
    using lead by (cases t) auto
  have "filter (\<lambda>part. part \<noteq> []) parts = parts"
    using nonempty by (auto simp: parts_def filter_id_conv)
  then have U: "URLSearchParams t = map g parts"
    using key_plain by (simp add: URLSearchParams_def strip g_def flip: parts_def)
  define es where "es = map g (filter signed_part parts)"
  have es: "params_delete (params_delete (URLSearchParams t) (js ''hash'')) (js ''signature'') = es"
    by (simp add: U es_def params_delete_def filter_map o_def g_def signed_part_def [abs_def]
        conj_commute)
  have dist_es: "distinct (map fst es)"
    using keys by (simp add: es_def o_def g_def distinct_map_filter flip: parts_def)
  have es_chars: "\<forall>e\<in>set es. \<forall>c\<in>set (fst e). 44 < c"
    using key_chars by (auto simp: es_def g_def parts_def)
  have index: "dataCheckString_index t = join_with 10 (pairs_part000 es)"
    using sort_entries_by_key [OF dist_es es_chars] sorted_pairs_by_map [OF dist_es]
    by (simp add: dataCheckString_index_def es)
  have "parse_parts parts ([], []) \<noteq> None"
    using decodable by (simp add: parse_parts_None parts_def)
  then obtain h ps where parsed: "parse_parts parts ([], []) = Some (h, ps)" by auto
  have dist_ps: "distinct (map fst ps)"
    using parse_parts_distinct [OF parsed] by simp
  have decoded: "decodeURIComponent (value_part p) = Some (form_decode (value_part p))"
    if p: "p \<in> set parts" and sp: "signed_part p" for p
  proof -
    obtain w where w: "decodeURIComponent (value_part p) = Some w"
      using decodable p sp by (auto simp: parts_def)
    have "\<forall>c\<in>set (value_part p). c < 128 \<and> c \<noteq> 43"
      using part_ascii [OF p] value_part_chars [of p] by auto
    then show ?thesis using form_decode_decoded [OF w] w by simp
  qed
  have "map_of ps = map_of es"
  proof (rule ext, rule option_eq_by_Some)
    fix k v
    have "(map_of ps k = Some v) =
        (\<exists>p\<in>set parts. signed_part p \<and> key_part p = k \<and> k \<noteq> js ''__proto__'' \<and>
           decodeURIComponent (value_part p) = Some v)"
      using parse_parts_params [OF parsed, of k v] keys by (simp add: parts_def)
    also have "\<dots> = (\<exists>p\<in>set parts. signed_part p \<and> key_part p = k \<and>
           form_decode (value_part p) = v)"
      using decoded proto by (auto simp: parts_def)
    also have "\<dots> = ((k, v) \<in> set es)"
      by (auto simp: es_def g_def)
    also have "\<dots> = (map_of es k = Some v)"
      using dist_es by simp
    finally show "(map_of ps k = Some v) = (map_of es k = Some v)" .
  qed
  then have pairs: "pairs_part000 ps = pairs_part000 es"
    using dist_ps dist_es by (simp add: pairs_part000_by_map)
  have hash: "h = claimed_hash_index t"
  proof (cases "\<exists>p\<in>set parts. key_part p = js ''hash''")
    case False
    then have "find (\<lambda>e. fst e = js ''hash'') (map g parts) = None"
      by (auto simp: find_None_iff g_def)
    then have "claimed_hash_index t = []"
      by (simp add: claimed_hash_index_def params_get_def U)
    then show ?thesis
      using parse_parts_hash [OF parsed, of h] keys False by (simp add: parts_def)
  next
    case True
    then obtain e where e: "find (\<lambda>e. fst e = js ''hash'') (map g parts) = Some e"
      by (cases "find (\<lambda>e. fst e = js ''hash'') (map g parts)")
        (auto simp: find_None_iff g_def)
    then have "e \<in> set (map g parts)" "fst e = js ''hash''"
      by (auto simp: find_Some_iff)
    then obtain p where p: "p \<in> set parts" "key_part p = js ''hash''"
      "e = (key_part p, form_decode (value_part p))"
      by (auto simp: g_def)
    have "\<forall>c\<in>set (value_part p). c < 128 \<and> c \<noteq> 37 \<and> c \<noteq> 43"
      using part_ascii [OF p(1)] value_part_chars [of p] hash_plain p(1,2)
      by (auto simp: parts_def)
    then have "form_decode (value_part p) = value_part p" by (rule form_decode_plain)
    then have "claimed_hash_index t = value_part p"
      using e p by (simp add: claimed_hash_index_def params_get_def U)
    then show ?thesis
      using parse_parts_hash [OF parsed, of "claimed_hash_index t"] keys p
      by (auto simp: parts_def)
  qed
  show ?thesis
    using parsed hash pairs index by (simp add: parsed_part000_def parts_def)
qed

section \<open>Properties of the name pattern\<close>

lemma match_rep_end_iff:
  "match_rep_end cls lo hi s \<longleftrightarrow> lo \<le> length s \<and> length s \<le> hi \<and> list_all cls s"
  by (induction s arbitrary: lo hi) auto

lemma name_class_spec: "name_class c = spec_name_char c"
  by (auto simp: name_class_def spec_name_char_def latin_letter_def cyrillic_letter_def
      ascii_digit_def)

lemma nameOk_iff: "nameOk (Some d) \<longleftrightarrow> spec_name_accepted d"
  by (simp add: nameOk_def claimed_name_def regex_name_test_def spec_name_accepted_def
      match_rep_end_iff name_class_spec [abs_def])

section \<open>Properties of the reconciliation\<close>

lemma same_store_effect:
  "snd (reconcile_part000 k p stamp f tbl) = snd (reconcile_index k p stamp f tbl)"
  by (simp add: reconcile_part000_def reconcile_index_def Let_def split: option.splits prod.splits)


lemma name_examples:
  "\<not> nameOk (Some (js ''ab''))" "\<not> nameOk (Some (js ''name with space''))"
  "nameOk (Some (js ''abcd''))" "nameOk (Some [1040, 1041, 1042, 1043])"
  by (simp_all add: nameOk_def claimed_name_def js_trim_def js_def is_js_space_def
      regex_name_test_def name_class_def)

lemma rejected_name_kept:
  assumes "\<not> nameOk (req_displayName p)" and "tbl k = Some old"
  shows "\<exists>r. snd (reconcile_index k p stamp f tbl) k = Some r \<and> username r = username old"
  using assms
  by (simp add: reconcile_index_def score_record_def upsert_def Let_def select_maybeSingle_def
      split: option.splits)

lemma accepted_name_written:
  assumes "nameOk (req_displayName p)" and "upsert_error f = None"
  shows "\<exists>r. snd (reconcile_index k p stamp f tbl) k = Some r \<and>
           username r = Some (claimed_name (req_displayName p))"
  using assms
  by (simp add: reconcile_index_def score_record_def upsert_def Let_def select_maybeSingle_def
      split: option.splits)

section \<open>Properties of the examples and of the handlers\<close>

lemma example_token_fields:
  "split_on 38 example_token =
     [js ''query_id=AAH'', js ''user=%7B%22id%22%3A42%7D'', js ''auth_date=1700000000'', js ''hash=abcdef'']"
  "split_on 38 example_token_permuted =
     [js ''hash=abcdef'', js ''auth_date=1700000000'', js ''user=%7B%22id%22%3A42%7D'', js ''query_id=AAH'']"
  by (simp_all add: example_token_def example_token_permuted_def js_def)

lemma example_token_dcs:
  "dataCheckString_index example_token = example_dcs"
  "dataCheckString_part000 example_token = Some example_dcs"
  "dataCheckString_index example_token_permuted = example_dcs"
  by (simp_all add: example_token_def example_token_permuted_def example_dcs_def token_eval)

lemma example_token_entries:
  "URLSearchParams example_token =
     [(js ''query_id'', js ''AAH''), (js ''user'', js ''{\"id\":42}''),
      (js ''auth_date'', js ''1700000000''), (js ''hash'', js ''abcdef'')]"
  by (simp add: example_token_def token_eval)

lemma toHex_chars:
  "\<forall>b\<in>set bs. b < 256 \<Longrightarrow> \<forall>c\<in>set (toHex bs). (48 \<le> c \<and> c \<le> 57) \<or> (97 \<le> c \<and> c \<le> 102)"
proof (induction bs)
  case Nil
  then show ?case by (simp add: toHex_def)
next
  case (Cons b bs)
  have "b div 16 < 16" "b mod 16 < 16" using Cons.prems by auto
  then show ?case using Cons by (auto simp: toHex_def)
qed

lemma length_toHex: "length (toHex bs) = 2 * length bs"
  by (induction bs) (auto simp: toHex_def)

lemma calcHash_chars:
  "\<forall>c\<in>set (calcHash hmac botToken dcs). (48 \<le> c \<and> c \<le> 57) \<or> (97 \<le> c \<and> c \<le> 102)"
  unfolding calcHash_def Let_def by (rule toHex_chars) (simp add: hmacSHA256_def)

lemma calcHash_plain:
  "\<forall>c\<in>set (calcHash hmac botToken dcs). c < 128 \<and> c \<noteq> 37 \<and> c \<noteq> 43"
  "38 \<notin> set (calcHash hmac botToken dcs)" "61 \<notin> set (calcHash hmac botToken dcs)"
  using calcHash_chars [of hmac botToken dcs] by fastforce+

lemma even_length_calcHash: "even (length (calcHash hmac botToken dcs))"
  by (simp add: calcHash_def Let_def length_toHex)

lemma split_on_no_sep: "sep \<notin> set s \<Longrightarrow> split_on sep s = [s]"
  by (induction s) auto

lemma entries_with_plain_hash:
  assumes "\<forall>c\<in>set h. c < 128 \<and> c \<noteq> 37 \<and> c \<noteq> 43" and "38 \<notin> set h"
  shows "URLSearchParams (js ''auth_date=0&user=%7B%22id%22%3A42%7D&hash='' @ h) =
     [(js ''auth_date'', js ''0''), (js ''user'', js ''{\"id\":42}''), (js ''hash'', h)]"
proof -
  have 1: "split_on 38 h = [h]" using assms(2) by (rule split_on_no_sep)
  have 2: "utf8_encode h = h" using assms(1) by (simp add: utf8_encode_ascii)
  have 3: "map (\<lambda>b. if b = 43 then 32 else b) h = h" using assms(1) by (simp add: map_idI)
  have 4: "percent_decode h = h" using assms(1) by (auto intro: percent_decode_plain)
  have 5: "utf8_decode_from 0 0 128 191 h = h"
    using utf8_decode_ascii [of h] assms(1) by (simp add: utf8_decode_def)
  show ?thesis
    by (simp add: token_eval 1 2 3 4 5)
qed

lemma ancient_token_entries:
  "URLSearchParams (ancient_token hmac) =
     [(js ''auth_date'', js ''0''), (js ''user'', js ''{\"id\":42}''),
      (js ''hash'', calcHash hmac (js ''123:abc'') (js ''auth_date=0'' @ 10 # js ''user={\"id\":42}''))]"
  unfolding ancient_token_def by (rule entries_with_plain_hash) (rule calcHash_plain)+

lemma ancient_token_verifies:
  "verifyTelegramInitData_index hmac (ancient_token hmac) (js ''123:abc'')"
  by (simp add: verifyTelegramInitData_index_def dataCheckString_index_def claimed_hash_index_def
      ancient_token_entries params_get_def params_delete_def sort_entries_def entry_string_def
      js_def)

lemma identity_missing_iff:
  "identity_missing json_parse initData \<longleftrightarrow>
     (case telegramId_of json_parse initData of None \<Rightarrow> True | Some i \<Rightarrow> \<not> truthy i)"
  by (auto simp: identity_missing_def telegramId_of_def Let_def split: option.splits)

lemma not_json_rejected:
  assumes "http_method req \<noteq> js ''OPTIONS''" and "body req = NotJson"
  shows "serve_index hmac json_parse e stamp f req tbl =
           (\<lparr>status = 400, content = Error (js ''Missing initData'')\<rparr>, tbl)"
    and "serve_part000 hmac json_parse e now stamp f req tbl =
           (\<lparr>status = 400, content = Error (js ''Missing initData'')\<rparr>, tbl)"
  using assms by (simp_all add: serve_index_def serve_part000_def empty_payload_def present_def)

lemma missing_score_is_zero:
  "req_runScore p = None \<Longrightarrow>
     score_record k p stamp f tbl =
       score_record k (p\<lparr>req_runScore := Some (Finite 0)\<rparr>) stamp f tbl"
  "req_totalScore p = None \<Longrightarrow>
     score_record k p stamp f tbl =
       score_record k (p\<lparr>req_totalScore := Some (Finite 0)\<rparr>) stamp f tbl"
  by (simp_all add: score_record_def Number_or_zero_def Let_def)

lemma reconcile_by_record:
  assumes "score_record k p stamp f tbl = score_record k p' stamp f tbl"
  shows "reconcile_index k p stamp f tbl = reconcile_index k p' stamp f tbl"
    and "reconcile_part000 k p stamp f tbl = reconcile_part000 k p' stamp f tbl"
  using assms by (simp_all add: reconcile_index_def reconcile_part000_def)

lemma answered_read_keeps_maxima:
  assumes "\<not> read_fails f" and "upsert_error f = None" and "tbl k = Some old"
    and "max_score old = Some a" and "total_score old = Some b"
    and "Number_or_zero (req_runScore p) = Finite r"
    and "Number_or_zero (req_totalScore p) = Finite t"
  shows "\<exists>row. snd (reconcile_index k p stamp f tbl) k = Some row \<and>
           max_score row = Some (max a r) \<and> total_score row = Some (max b t)"
  using assms
  by (simp add: reconcile_index_def score_record_def upsert_def Let_def select_maybeSingle_def
      column_or_zero_def)

lemma Math_max_NaN: "Math_max a NaN = NaN"
  by (cases a) simp_all

lemma not_a_number_written_null:
  assumes "Number_or_zero (req_runScore p) = NaN" and "upsert_error f = None"
  shows "\<exists>row. snd (reconcile_index k p stamp f tbl) k = Some row \<and> max_score row = None"
  using assms
  by (simp add: reconcile_index_def score_record_def upsert_def Let_def Math_max_NaN)

lemma present_empty_payload: "present (req_initData empty_payload) = None"
  by (simp add: empty_payload_def present_def)

lemma serve_part000_reached:
  assumes "http_method req \<noteq> js ''OPTIONS''" and "body req = JsonValue p"
    and "present (req_initData p) = Some initData"
    and "present (SUPABASE_URL e) = Some u" and "present (SUPABASE_SERVICE_ROLE_KEY e) = Some r"
    and "present (TELEGRAM_BOT_TOKEN e) = Some b"
  shows "serve_part000 hmac json_parse e now stamp f req tbl =
          (if stale now (authDate_of initData)
           then (\<lparr>status = 401, content = Error (js ''Expired or invalid auth_date'')\<rparr>, tbl)
           else
             (case verifyTelegramInitData_part000 hmac initData b of
                None \<Rightarrow> (\<lparr>status = 500, content = Thrown URIError\<rparr>, tbl)
              | Some cryptoOk \<Rightarrow>
                  (case telegramId_of json_parse initData of
                     None \<Rightarrow> (\<lparr>status = 400, content = Error (js ''No Telegram user'')\<rparr>, tbl)
                   | Some telegramId \<Rightarrow>
                       if \<not> truthy telegramId
                       then (\<lparr>status = 400, content = Error (js ''No Telegram user'')\<rparr>, tbl)
                       else reconcile_part000 telegramId p stamp f tbl)))"
  using assms by (simp add: serve_part000_def)

lemma serve_index_reached:
  assumes "http_method req \<noteq> js ''OPTIONS''" and "body req = JsonValue p"
    and "present (req_initData p) = Some initData"
    and "present (SUPABASE_URL e) = Some u" and "present (SUPABASE_SERVICE_ROLE_KEY e) = Some r"
    and "present (TELEGRAM_BOT_TOKEN e) = Some b"
  shows "serve_index hmac json_parse e stamp f req tbl =
          (if \<not> verifyTelegramInitData_index hmac initData b
           then (\<lparr>status = 401, content = Error (js ''Invalid Telegram signature'')\<rparr>, tbl)
           else
             (case telegramId_of json_parse initData of
                None \<Rightarrow> (\<lparr>status = 400, content = Error (js ''No Telegram user'')\<rparr>, tbl)
              | Some telegramId \<Rightarrow>
                  if \<not> truthy telegramId
                  then (\<lparr>status = 400, content = Error (js ''No Telegram user'')\<rparr>, tbl)
                  else reconcile_index telegramId p stamp f tbl))"
  using assms by (simp add: serve_index_def)

lemma serve_not_reached:
  assumes "http_method req \<noteq> js ''OPTIONS''"
    and "\<not> (\<exists>p initData u r b. body req = JsonValue p \<and> present (req_initData p) = Some initData \<and>
      present (SUPABASE_URL e) = Some u \<and> present (SUPABASE_SERVICE_ROLE_KEY e) = Some r \<and>
      present (TELEGRAM_BOT_TOKEN e) = Some b)"
  shows "\<exists>st c. st \<in> {400, 500} \<and>
      serve_index hmac json_parse e stamp f req tbl = (\<lparr>status = st, content = c\<rparr>, tbl) \<and>
      serve_part000 hmac json_parse e now stamp f req tbl = (\<lparr>status = st, content = c\<rparr>, tbl)"
proof (cases "body req")
  case NotJson
  then show ?thesis using assms(1)
    by (simp add: serve_index_def serve_part000_def present_empty_payload)
next
  case JsonNull
  then show ?thesis using assms(1) by (simp add: serve_index_def serve_part000_def)
next
  case (JsonValue p)
  show ?thesis
  proof (cases "present (req_initData p)")
    case None
    then show ?thesis using assms(1) JsonValue
      by (simp add: serve_index_def serve_part000_def)
  next
    case (Some initData)
    then have "present (SUPABASE_URL e) = None \<or> present (SUPABASE_SERVICE_ROLE_KEY e) = None \<or>
        present (TELEGRAM_BOT_TOKEN e) = None"
      using assms(2) JsonValue by auto
    then show ?thesis using assms(1) JsonValue Some
      by (auto simp: serve_index_def serve_part000_def split: option.splits)
  qed
qed




lemma reconcile_upsert_error:
  assumes "upsert_error f = Some message"
  shows "reconcile_index k p stamp f tbl = (\<lparr>status = 400, content = Error message\<rparr>, tbl)"
    and "reconcile_part000 k p stamp f tbl = (\<lparr>status = 400, content = Error message\<rparr>, tbl)"
  using assms by (simp_all add: reconcile_index_def reconcile_part000_def)



lemma serve_upsert_error:
  assumes "upsert_error f = Some message" and "http_method req \<noteq> js ''OPTIONS''"
  shows "status (fst (serve_index hmac json_parse e stamp f req tbl)) \<in> {400, 401, 500} \<and>
     snd (serve_index hmac json_parse e stamp f req tbl) = tbl \<and>
     status (fst (serve_part000 hmac json_parse e now stamp f req tbl)) \<in> {400, 401, 500} \<and>
     snd (serve_part000 hmac json_parse e now stamp f req tbl) = tbl"
proof (cases "\<exists>p initData u r b. body req = JsonValue p \<and>
      present (req_initData p) = Some initData \<and> present (SUPABASE_URL e) = Some u \<and>
      present (SUPABASE_SERVICE_ROLE_KEY e) = Some r \<and> present (TELEGRAM_BOT_TOKEN e) = Some b")
  case False
  then show ?thesis
    using serve_not_reached [OF assms(2), of e hmac json_parse stamp f tbl now] by auto
next
  case True
  then obtain p initData u r b where r: "body req = JsonValue p"
    "present (req_initData p) = Some initData" "present (SUPABASE_URL e) = Some u"
    "present (SUPABASE_SERVICE_ROLE_KEY e) = Some r" "present (TELEGRAM_BOT_TOKEN e) = Some b"
    by blast
  show ?thesis
    unfolding serve_index_reached [OF assms(2) r] serve_part000_reached [OF assms(2) r]
    by (simp add: reconcile_upsert_error [OF assms(1)] split: option.splits)
qed

text \<open>The definitions that evaluate a reconciliation on the example data.\<close>

lemmas reconcile_eval = reconcile_index_def reconcile_part000_def
  score_record_def upsert_def select_maybeSingle_def column_or_zero_def Number_or_zero_def
  no_faults_def example_table_def example_row_def example_call_def nameOk_def
  claimed_name_def regex_name_test_def Let_def

lemma serve_index_signed:
  "serve_index hmac parse_id_42 example_env stamp f (submit (ancient_token hmac) r t) tbl =
     reconcile_index (JNum 42)
       \<lparr>req_initData = Some (ancient_token hmac), req_runScore = r, req_totalScore = t,
         req_displayName = None\<rparr> stamp f tbl"
proof -
  have n: "ancient_token hmac \<noteq> []" by (simp add: ancient_token_def js_def)
  have i: "telegramId_of parse_id_42 (ancient_token hmac) = Some (JNum 42)"
    by (simp add: telegramId_of_def ancient_token_entries params_get_def parse_id_42_def js_def)
  show ?thesis
    using n i ancient_token_verifies [of hmac]
    by (simp add: serve_index_def submit_def example_env_def present_def js_def)
qed

lemma serve_part000_fresh:
  "serve_part000 hmac parse_id_42 example_env 1700000100 stamp f (submit example_token r t) tbl =
     reconcile_part000 (JNum 42)
       \<lparr>req_initData = Some example_token, req_runScore = r, req_totalScore = t,
         req_displayName = None\<rparr> stamp f tbl"
proof -
  have n: "example_token \<noteq> []" by (simp add: example_token_def js_def)
  have i: "telegramId_of parse_id_42 example_token = Some (JNum 42)"
    by (simp add: telegramId_of_def example_token_entries params_get_def parse_id_42_def js_def)
  have d: "\<not> stale 1700000100 (authDate_of example_token)"
    by (simp add: stale_def authDate_of_def example_token_entries params_get_def present_def
        js_def parseInt10_def is_js_space_def)
  have v: "verifyTelegramInitData_part000 hmac example_token (js ''123:abc'') \<noteq> None"
    by (simp add: verifyTelegramInitData_part000_def example_token_def token_eval)
  show ?thesis
    using n i d v
    by (auto simp: serve_part000_def submit_def example_env_def present_def js_def)
qed

lemma text_id_token_entries:
  "URLSearchParams text_id_token =
     [(js ''auth_date'', js ''1700000000''), (js ''user'', js ''{\"id\":\"0\"}''),
      (js ''hash'', js ''abcdef'')]"
  by (simp add: text_id_token_def token_eval)

lemma text_id_accepted_part000:
  "serve_part000 hmac parse_id_text example_env 1700000100 stamp f (submit text_id_token r t) tbl =
     reconcile_part000 (JStr (js ''0''))
       \<lparr>req_initData = Some text_id_token, req_runScore = r, req_totalScore = t,
         req_displayName = None\<rparr> stamp f tbl"
proof -
  have n: "text_id_token \<noteq> []" by (simp add: text_id_token_def js_def)
  have i: "telegramId_of parse_id_text text_id_token = Some (JStr (js ''0''))"
    by (simp add: telegramId_of_def text_id_token_entries params_get_def parse_id_text_def js_def)
  have d: "\<not> stale 1700000100 (authDate_of text_id_token)"
    by (simp add: stale_def authDate_of_def text_id_token_entries params_get_def present_def
        js_def parseInt10_def is_js_space_def)
  have v: "verifyTelegramInitData_part000 hmac text_id_token (js ''123:abc'') \<noteq> None"
    by (simp add: verifyTelegramInitData_part000_def text_id_token_def token_eval)
  have tr: "truthy (JStr (js ''0''))" by (simp add: js_def)
  show ?thesis
    using n i d v tr
    by (auto simp: serve_part000_def submit_def example_env_def present_def js_def)
qed

lemma text_id_entries_with_plain_hash:
  assumes "\<forall>c\<in>set h. c < 128 \<and> c \<noteq> 37 \<and> c \<noteq> 43" and "38 \<notin> set h"
  shows "URLSearchParams (js ''auth_date=1700000000&user=%7B%22id%22%3A%220%22%7D&hash='' @ h) =
     [(js ''auth_date'', js ''1700000000''), (js ''user'', js ''{\"id\":\"0\"}''),
      (js ''hash'', h)]"
proof -
  have 1: "split_on 38 h = [h]" using assms(2) by (rule split_on_no_sep)
  have 2: "utf8_encode h = h" using assms(1) by (simp add: utf8_encode_ascii)
  have 3: "map (\<lambda>b. if b = 43 then 32 else b) h = h" using assms(1) by (simp add: map_idI)
  have 4: "percent_decode h = h" using assms(1) by (auto intro: percent_decode_plain)
  have 5: "utf8_decode_from 0 0 128 191 h = h"
    using utf8_decode_ascii [of h] assms(1) by (simp add: utf8_decode_def)
  show ?thesis
    by (simp add: token_eval 1 2 3 4 5)
qed

lemma signed_text_id_token_entries:
  "URLSearchParams (signed_text_id_token hmac) =
     [(js ''auth_date'', js ''1700000000''), (js ''user'', js ''{\"id\":\"0\"}''),
      (js ''hash'', calcHash hmac (js ''123:abc'')
         (js ''auth_date=1700000000'' @ 10 # js ''user={\"id\":\"0\"}''))]"
  unfolding signed_text_id_token_def
  by (rule text_id_entries_with_plain_hash) (rule calcHash_plain)+

lemma signed_text_id_token_verifies:
  "verifyTelegramInitData_index hmac (signed_text_id_token hmac) (js ''123:abc'')"
  by (simp add: verifyTelegramInitData_index_def dataCheckString_index_def claimed_hash_index_def
      signed_text_id_token_entries params_get_def params_delete_def sort_entries_def
      entry_string_def js_def)

lemma text_id_accepted_index:
  "serve_index hmac parse_id_text example_env stamp f (submit (signed_text_id_token hmac) r t) tbl =
     reconcile_index (JStr (js ''0''))
       \<lparr>req_initData = Some (signed_text_id_token hmac), req_runScore = r, req_totalScore = t,
         req_displayName = None\<rparr> stamp f tbl"
proof -
  have n: "signed_text_id_token hmac \<noteq> []" by (simp add: signed_text_id_token_def js_def)
  have i: "telegramId_of parse_id_text (signed_text_id_token hmac) = Some (JStr (js ''0''))"
    by (simp add: telegramId_of_def signed_text_id_token_entries params_get_def
        parse_id_text_def js_def)
  have tr: "truthy (JStr (js ''0''))" by (simp add: js_def)
  show ?thesis
    using n i tr signed_text_id_token_verifies [of hmac]
    by (simp add: serve_index_def submit_def example_env_def present_def js_def)
qed

section \<open>The claims\<close>

text \<open>
  Claim C1 as stated fails for index.ts, which never reads the clock: for every function
  in the place of HMAC-SHA256, the token dated 1 January 1970 and signed under the bot
  token is accepted, and the request succeeds.
\<close>

theorem stale_token_accepted_index:
  "\<forall>hmac. authDate_of (ancient_token hmac) = Some 0 \<and>
     fst (serve_index hmac parse_id_42 example_env 1 no_faults (post (ancient_token hmac))
       Map.empty) = \<lparr>status = 200, content = OkAck\<rparr>"
proof
  fix hmac
  have "authDate_of (ancient_token hmac) = Some 0"
    by (simp add: authDate_of_def ancient_token_entries params_get_def present_def js_def
        parseInt10_def is_js_space_def)
  moreover have "telegramId_of parse_id_42 (ancient_token hmac) = Some (JNum 42)"
    by (simp add: telegramId_of_def ancient_token_entries params_get_def parse_id_42_def js_def)
  ultimately show "authDate_of (ancient_token hmac) = Some 0 \<and>
     fst (serve_index hmac parse_id_42 example_env 1 no_faults (post (ancient_token hmac))
       Map.empty) = \<lparr>status = 200, content = OkAck\<rparr>"
    using ancient_token_verifies [of hmac]
    by (simp add: serve_index_def post_def example_env_def present_def ancient_token_def js_def
        reconcile_index_def no_faults_def)
qed

text \<open>
  Claim C1, amended. In part_000, for every request that reaches the verification (not
  an OPTIONS request, a body with a non-empty \<^verbatim>\<open>initData\<close>, the three environment
  variables set) and whose token's \<^verbatim>\<open>auth_date\<close> reads as a number more than 86400
  seconds before the clock reading, or after it, the response is 401 "Expired or invalid
  auth_date" and the table is untouched: whatever the signature, the \<^verbatim>\<open>user\<close> field and
  the store's answers are. index.ts has no freshness check: it answers such a request with
  status 401 exactly when the signature comparison fails.
\<close>

theorem stale_token_rejected_part000:
  assumes "http_method req \<noteq> js ''OPTIONS''" and "body req = JsonValue p"
    and "present (req_initData p) = Some initData"
    and "present (SUPABASE_URL e) \<noteq> None" and "present (SUPABASE_SERVICE_ROLE_KEY e) \<noteq> None"
    and "present (TELEGRAM_BOT_TOKEN e) = Some botToken"
    and "authDate_of initData = Some authDate"
    and "now - authDate > 86400 \<or> now - authDate < 0"
  shows "serve_part000 hmac json_parse e now stamp f req tbl =
           (\<lparr>status = 401, content = Error (js ''Expired or invalid auth_date'')\<rparr>, tbl) \<and>
         (status (fst (serve_index hmac json_parse e stamp f req tbl)) = 401 \<longleftrightarrow>
            \<not> verifyTelegramInitData_index hmac initData botToken)"
proof -
  obtain u r where ur: "present (SUPABASE_URL e) = Some u"
    "present (SUPABASE_SERVICE_ROLE_KEY e) = Some r"
    using assms(4,5) by auto
  have 1: "serve_part000 hmac json_parse e now stamp f req tbl =
           (\<lparr>status = 401, content = Error (js ''Expired or invalid auth_date'')\<rparr>, tbl)"
    unfolding serve_part000_reached [OF assms(1,2,3) ur assms(6)]
    using assms(7,8) by (simp add: stale_def)
  have "status (fst (reconcile_index k p stamp f tbl)) \<noteq> 401" for k
    by (simp add: reconcile_index_def split: option.splits)
  then have 2: "status (fst (serve_index hmac json_parse e stamp f req tbl)) = 401 \<longleftrightarrow>
            \<not> verifyTelegramInitData_index hmac initData botToken"
    unfolding serve_index_reached [OF assms(1,2,3) ur assms(6)]
    by (simp split: option.splits)
  show ?thesis using 1 2 by simp
qed

text \<open>
  Witness for C1: the token of 1970, correctly signed, at the clock reading 1700000000;
  part_000 answers 401, index.ts does not.
\<close>

theorem stale_token_rejected_part000_witness:
  "\<forall>hmac. authDate_of (ancient_token hmac) = Some 0 \<and> (1700000000::int) - 0 > 86400 \<and>
     serve_part000 hmac parse_id_42 example_env 1700000000 1 no_faults
       (post (ancient_token hmac)) Map.empty =
     (\<lparr>status = 401, content = Error (js ''Expired or invalid auth_date'')\<rparr>, Map.empty) \<and>
     verifyTelegramInitData_index hmac (ancient_token hmac) (js ''123:abc'') \<and>
     status (fst (serve_index hmac parse_id_42 example_env 1 no_faults
       (post (ancient_token hmac)) Map.empty)) \<noteq> 401"
proof
  fix hmac
  have a: "authDate_of (ancient_token hmac) = Some 0"
    by (simp add: authDate_of_def ancient_token_entries params_get_def present_def js_def
        parseInt10_def is_js_space_def)
  have n: "ancient_token hmac \<noteq> []" by (simp add: ancient_token_def js_def)
  show "authDate_of (ancient_token hmac) = Some 0 \<and> (1700000000::int) - 0 > 86400 \<and>
     serve_part000 hmac parse_id_42 example_env 1700000000 1 no_faults
       (post (ancient_token hmac)) Map.empty =
     (\<lparr>status = 401, content = Error (js ''Expired or invalid auth_date'')\<rparr>, Map.empty) \<and>
     verifyTelegramInitData_index hmac (ancient_token hmac) (js ''123:abc'') \<and>
     status (fst (serve_index hmac parse_id_42 example_env 1 no_faults
       (post (ancient_token hmac)) Map.empty)) \<noteq> 401"
    using stale_token_rejected_part000 [where req = "post (ancient_token hmac)"
        and p = "\<lparr>req_initData = Some (ancient_token hmac), req_runScore = Some (Finite 10),
          req_totalScore = Some (Finite 10), req_displayName = None\<rparr>"
        and initData = "ancient_token hmac" and e = example_env and authDate = 0
        and now = 1700000000 and hmac = hmac and json_parse = parse_id_42 and stamp = 1
        and f = no_faults and tbl = Map.empty and botToken = "js ''123:abc''"]
      a n ancient_token_verifies [of hmac]
    by (simp add: post_def example_env_def present_def js_def)
qed




text \<open>
  Claim C3 as stated fails: when the write reports an error, both variants answer with
  status 400, not 500.
\<close>

theorem upsert_error_status_400:
  "fst (reconcile_index (JNum 42) (example_call 10 10 None) 1
      (no_faults\<lparr>upsert_error := Some (js ''connection refused'')\<rparr>) example_table) =
     \<lparr>status = 400, content = Error (js ''connection refused'')\<rparr> \<and>
   fst (reconcile_part000 (JNum 42) (example_call 10 10 None) 1
      (no_faults\<lparr>upsert_error := Some (js ''connection refused'')\<rparr>) example_table) =
     \<lparr>status = 400, content = Error (js ''connection refused'')\<rparr>"
  by (simp add: reconcile_index_def reconcile_part000_def no_faults_def)

text \<open>
  Claim C3, amended. When the store's write reports an error, the reconciliation of both
  variants answers with HTTP status 400 and the error's message and leaves the table as
  it was; no request other than OPTIONS gets a success response, and none changes the
  table. (What happens when a read reports an error is not part of the statement.)
\<close>

theorem upsert_error_reported:
  "upsert_error f = Some message \<Longrightarrow>
     reconcile_index k p stamp f tbl = (\<lparr>status = 400, content = Error message\<rparr>, tbl) \<and>
     reconcile_part000 k p stamp f tbl = (\<lparr>status = 400, content = Error message\<rparr>, tbl) \<and>
     (http_method req \<noteq> js ''OPTIONS'' \<longrightarrow>
        status (fst (serve_index hmac json_parse e stamp f req tbl)) \<in> {400, 401, 500} \<and>
        snd (serve_index hmac json_parse e stamp f req tbl) = tbl \<and>
        status (fst (serve_part000 hmac json_parse e now stamp f req tbl)) \<in> {400, 401, 500} \<and>
        snd (serve_part000 hmac json_parse e now stamp f req tbl) = tbl)"
  using reconcile_upsert_error [of f message k p stamp tbl]
    serve_upsert_error [of f message req hmac json_parse e stamp tbl now]
  by simp

text \<open>Witness for C3: the write of a call on the example table is refused.\<close>

theorem upsert_error_reported_witness:
  "upsert_error (no_faults\<lparr>upsert_error := Some (js ''connection refused'')\<rparr>) =
     Some (js ''connection refused'') \<and>
   reconcile_part000 (JNum 42) (example_call 10 10 None) 1
      (no_faults\<lparr>upsert_error := Some (js ''connection refused'')\<rparr>) example_table =
     (\<lparr>status = 400, content = Error (js ''connection refused'')\<rparr>, example_table)"
  using upsert_error_reported [where f = "no_faults\<lparr>upsert_error := Some (js ''connection refused'')\<rparr>"
      and message = "js ''connection refused''" and k = "JNum 42"
      and p = "example_call 10 10 None" and stamp = 1 and tbl = example_table]
  by simp

text \<open>
  Claim C4 as stated fails. index.ts turns \<^verbatim>\<open>+\<close> into a space and part_000 does not;
  index.ts keeps both fields of a repeated key and part_000 the last one; at an escape that
  is not well formed index.ts keeps the text and part_000 throws, so that it returns no
  boolean at all.
\<close>

theorem verifiers_differ:
  "dataCheckString_index (js ''a=1+2'') = js ''a=1 2'' \<and>
   dataCheckString_part000 (js ''a=1+2'') = Some (js ''a=1+2'') \<and>
   dataCheckString_index (js ''a=1&a=2'') = js ''a=1'' @ 10 # js ''a=2'' \<and>
   dataCheckString_part000 (js ''a=1&a=2'') = Some (js ''a=2'') \<and>
   dataCheckString_index (js ''a=%'') = js ''a=%'' \<and>
   dataCheckString_part000 (js ''a=%'') = None \<and>
   (\<forall>hmac botToken. verifyTelegramInitData_part000 hmac (js ''a=%'') botToken = None)"
  by (simp add: token_eval verifyTelegramInitData_part000_def)

text \<open>
  Claim C4, amended. The two verifiers compute the same data-check string and return the
  same boolean for every token and secret, provided the token is ASCII without \<^verbatim>\<open>+\<close>,
  does not begin with \<^verbatim>\<open>?\<close>, has no empty field, its keys are pairwise distinct, made
  of code units above the comma (so without \<^verbatim>\<open>%\<close>) and none is \<^verbatim>\<open>__proto__\<close>, every
  signed value decodes under \<^verbatim>\<open>decodeURIComponent\<close>, and the hash value has no escape.
\<close>

theorem verifiers_agree:
  assumes "\<forall>c\<in>set t. c < 128 \<and> c \<noteq> 43"
    and "take 1 t \<noteq> [63]"
    and "[] \<notin> set (split_on 38 t)"
    and "distinct (map key_part (split_on 38 t))"
    and "\<forall>p\<in>set (split_on 38 t). \<forall>c\<in>set (key_part p). 44 < c"
    and "\<forall>p\<in>set (split_on 38 t). key_part p \<noteq> js ''__proto__''"
    and "\<forall>p\<in>set (split_on 38 t). signed_part p \<longrightarrow> decodeURIComponent (value_part p) \<noteq> None"
    and "\<forall>p\<in>set (split_on 38 t). key_part p = js ''hash'' \<longrightarrow> 37 \<notin> set (value_part p)"
  shows "dataCheckString_part000 t = Some (dataCheckString_index t) \<and>
     verifyTelegramInitData_part000 hmac t botToken =
       Some (verifyTelegramInitData_index hmac t botToken)"
proof -
  obtain ps where "parsed_part000 t = Some (claimed_hash_index t, ps)"
    "join_with 10 (pairs_part000 ps) = dataCheckString_index t"
    using verifiers_agree_lemma [OF assms] by blast
  then show ?thesis
    by (simp add: dataCheckString_part000_def verifyTelegramInitData_part000_def
        verifyTelegramInitData_index_def)
qed

text \<open>
  Witness for C4: the example token, whose \<^verbatim>\<open>user\<close> value is percent-encoded JSON.
\<close>

theorem verifiers_agree_witness:
  "dataCheckString_part000 example_token = Some (dataCheckString_index example_token) \<and>
   dataCheckString_index example_token = example_dcs \<and>
   (\<forall>hmac botToken. verifyTelegramInitData_part000 hmac example_token botToken =
       Some (verifyTelegramInitData_index hmac example_token botToken))"
proof -
  have 1: "\<forall>c\<in>set example_token. c < 128 \<and> c \<noteq> 43"
    by (simp add: example_token_def js_def)
  have 2: "take 1 example_token \<noteq> [63]"
    by (simp add: example_token_def js_def)
  have 3: "[] \<notin> set (split_on 38 example_token)"
    by (simp add: example_token_fields js_def)
  have 4: "distinct (map key_part (split_on 38 example_token))"
    by (simp add: example_token_fields js_def key_part_def)
  have 5: "\<forall>p\<in>set (split_on 38 example_token). \<forall>c\<in>set (key_part p). 44 < c"
    by (simp add: example_token_fields js_def key_part_def)
  have 6: "\<forall>p\<in>set (split_on 38 example_token). key_part p \<noteq> js ''__proto__''"
    by (simp add: example_token_fields js_def key_part_def)
  have 7: "\<forall>p\<in>set (split_on 38 example_token). signed_part p \<longrightarrow>
      decodeURIComponent (value_part p) \<noteq> None"
    by (simp add: example_token_fields token_eval)
  have 8: "\<forall>p\<in>set (split_on 38 example_token). key_part p = js ''hash'' \<longrightarrow>
      37 \<notin> set (value_part p)"
    by (simp add: example_token_fields js_def key_part_def value_part_def)
  show ?thesis
    using verifiers_agree [OF 1 2 3 4 5 6 7 8] example_token_dcs by simp
qed

text \<open>
  Claim C5 as stated fails. With a repeated key, part_000 signs the value that comes
  last, so swapping the two fields changes the data-check string, which is the message of
  the HMAC. In index.ts two entries whose texts \<^verbatim>\<open>key,value\<close> coincide keep their input
  order, so swapping them changes the data-check string as well.
\<close>

theorem duplicate_keys_order_dependent:
  "mset (split_on 38 (js ''a=1&a=2'')) = mset (split_on 38 (js ''a=2&a=1'')) \<and>
   dataCheckString_part000 (js ''a=1&a=2'') = Some (js ''a=2'') \<and>
   dataCheckString_part000 (js ''a=2&a=1'') = Some (js ''a=1'') \<and>
   mset (split_on 38 (js ''a,b=c&a=b,c'')) = mset (split_on 38 (js ''a=b,c&a,b=c'')) \<and>
   dataCheckString_index (js ''a,b=c&a=b,c'') = js ''a,b=c'' @ 10 # js ''a=b,c'' \<and>
   dataCheckString_index (js ''a=b,c&a,b=c'') = js ''a=b,c'' @ 10 # js ''a,b=c'' \<and>
   dataCheckString_part000 (js ''a=1&a=2'') \<noteq> dataCheckString_part000 (js ''a=2&a=1'') \<and>
   dataCheckString_index (js ''a,b=c&a=b,c'') \<noteq> dataCheckString_index (js ''a=b,c&a,b=c'')"
  by (simp add: token_eval)

text \<open>
  Claim C5, amended. Permuting the fields of a token leaves the data-check string, the
  computed hash and the verification outcome unchanged: in part_000 when the keys of the
  fields are pairwise distinct; in index.ts when no field begins with \<^verbatim>\<open>?\<close>, no decoded
  key contains a comma and at most one decoded key is \<^verbatim>\<open>hash\<close>.
\<close>

theorem permuted_fields_same_hash:
  "(mset (split_on 38 t) = mset (split_on 38 t') \<and>
      distinct (map key_part (split_on 38 t)) \<longrightarrow>
      dataCheckString_part000 t = dataCheckString_part000 t' \<and>
      map_option (calcHash hmac botToken) (dataCheckString_part000 t) =
        map_option (calcHash hmac botToken) (dataCheckString_part000 t') \<and>
      verifyTelegramInitData_part000 hmac t botToken =
        verifyTelegramInitData_part000 hmac t' botToken) \<and>
   (mset (split_on 38 t) = mset (split_on 38 t') \<and>
      (\<forall>p\<in>set (split_on 38 t). take 1 p \<noteq> [63]) \<and>
      (\<forall>e\<in>set (URLSearchParams t). 44 \<notin> set (fst e)) \<and>
      length (filter (\<lambda>e. fst e = js ''hash'') (URLSearchParams t)) \<le> 1 \<longrightarrow>
      dataCheckString_index t = dataCheckString_index t' \<and>
      calcHash hmac botToken (dataCheckString_index t) =
        calcHash hmac botToken (dataCheckString_index t') \<and>
      verifyTelegramInitData_index hmac t botToken =
        verifyTelegramInitData_index hmac t' botToken)"
proof (intro conjI impI)
  assume a: "mset (split_on 38 t) = mset (split_on 38 t') \<and>
      distinct (map key_part (split_on 38 t))"
  then have p: "dataCheckString_part000 t = dataCheckString_part000 t' \<and>
      verifyTelegramInitData_part000 hmac t botToken =
        verifyTelegramInitData_part000 hmac t' botToken"
    using part000_permuted [of t t' hmac botToken] by simp
  show "dataCheckString_part000 t = dataCheckString_part000 t'" using p by simp
  show "map_option (calcHash hmac botToken) (dataCheckString_part000 t) =
        map_option (calcHash hmac botToken) (dataCheckString_part000 t')" using p by simp
  show "verifyTelegramInitData_part000 hmac t botToken =
        verifyTelegramInitData_part000 hmac t' botToken" using p by simp
next
  assume a: "mset (split_on 38 t) = mset (split_on 38 t') \<and>
      (\<forall>p\<in>set (split_on 38 t). take 1 p \<noteq> [63]) \<and>
      (\<forall>e\<in>set (URLSearchParams t). 44 \<notin> set (fst e)) \<and>
      length (filter (\<lambda>e. fst e = js ''hash'') (URLSearchParams t)) \<le> 1"
  then have i: "dataCheckString_index t = dataCheckString_index t' \<and>
     claimed_hash_index t = claimed_hash_index t' \<and>
     verifyTelegramInitData_index hmac t botToken = verifyTelegramInitData_index hmac t' botToken"
    using index_permuted [of t t' hmac botToken] by simp
  show "dataCheckString_index t = dataCheckString_index t'" using i by simp
  show "calcHash hmac botToken (dataCheckString_index t) =
        calcHash hmac botToken (dataCheckString_index t')" using i by simp
  show "verifyTelegramInitData_index hmac t botToken =
        verifyTelegramInitData_index hmac t' botToken" using i by simp
qed

text \<open>
  Witness for C5: the example token and the same fields in reverse order.
\<close>

theorem permuted_fields_same_hash_witness:
  "mset (split_on 38 example_token) = mset (split_on 38 example_token_permuted) \<and>
   distinct (map key_part (split_on 38 example_token)) \<and>
   dataCheckString_part000 example_token_permuted = Some example_dcs \<and>
   dataCheckString_index example_token_permuted = example_dcs \<and>
   (\<forall>hmac botToken.
      verifyTelegramInitData_part000 hmac example_token botToken =
        verifyTelegramInitData_part000 hmac example_token_permuted botToken \<and>
      verifyTelegramInitData_index hmac example_token botToken =
        verifyTelegramInitData_index hmac example_token_permuted botToken)"
proof -
  have 1: "mset (split_on 38 example_token) = mset (split_on 38 example_token_permuted)"
    by (simp add: example_token_fields)
  have 2: "distinct (map key_part (split_on 38 example_token))"
    by (simp add: example_token_fields js_def key_part_def)
  have 3: "\<forall>p\<in>set (split_on 38 example_token). take 1 p \<noteq> [63]"
    by (simp add: example_token_fields js_def)
  have 4: "\<forall>e\<in>set (URLSearchParams example_token). 44 \<notin> set (fst e)"
    by (simp add: example_token_entries js_def)
  have 5: "length (filter (\<lambda>e. fst e = js ''hash'') (URLSearchParams example_token)) \<le> 1"
    by (simp add: example_token_entries js_def)
  show ?thesis
    using permuted_fields_same_hash [of example_token example_token_permuted] 1 2 3 4 5
      example_token_dcs
    by simp
qed

text \<open>
  Claim C6 (the stored scores never decrease, and the stored best run score ends at the
  maximum of the initial value and the claimed run scores) does not hold of the code. The
  handler takes only \<^verbatim>\<open>data\<close> from the read of the current row (index.ts line 121,
  part_000 line 146); when that read reports an error the current values count as 0, and
  the claimed scores are written over larger stored ones with a success response. The
  error of the write, a few lines below, is checked. On the stored row (10, 10) of
  identity 42, a submission of the scores (5, 3) during which the read fails leaves (5, 3)
  in the table: in the reconciliation of both variants and in both request handlers
  (index.ts with a correctly signed token, for every function in the place of HMAC-SHA256;
  part_000 with a fresh token). When the read answers, the same request leaves (10, 10).
\<close>

theorem failed_read_lowers_scores:
  "example_table (JNum 42) =
     Some \<lparr>telegram_id = JNum 42, username = Some (js ''kitty''), max_score = Some 10,
            total_score = Some 10, updated_at = 0\<rparr> \<and>
   reconcile_index (JNum 42) (example_call 5 3 None) 1 (no_faults\<lparr>read_fails := True\<rparr>)
       example_table =
     (\<lparr>status = 200, content = OkAck\<rparr>,
      example_table(JNum 42 \<mapsto>
        \<lparr>telegram_id = JNum 42, username = Some (js ''kitty''), max_score = Some 5,
         total_score = Some 3, updated_at = 1\<rparr>)) \<and>
   reconcile_part000 (JNum 42) (example_call 5 3 None) 1 (no_faults\<lparr>read_fails := True\<rparr>)
       example_table =
     (\<lparr>status = 200,
       content = OkMe (Some \<lparr>telegram_id = JNum 42, username = Some (js ''kitty''),
         max_score = Some 5, total_score = Some 3, updated_at = 1\<rparr>)\<rparr>,
      example_table(JNum 42 \<mapsto>
        \<lparr>telegram_id = JNum 42, username = Some (js ''kitty''), max_score = Some 5,
         total_score = Some 3, updated_at = 1\<rparr>)) \<and>
   (\<forall>hmac.
      serve_index hmac parse_id_42 example_env 1 (no_faults\<lparr>read_fails := True\<rparr>)
          (submit (ancient_token hmac) (Some (Finite 5)) (Some (Finite 3))) example_table =
        (\<lparr>status = 200, content = OkAck\<rparr>,
         example_table(JNum 42 \<mapsto>
           \<lparr>telegram_id = JNum 42, username = Some (js ''kitty''), max_score = Some 5,
            total_score = Some 3, updated_at = 1\<rparr>)) \<and>
      serve_part000 hmac parse_id_42 example_env 1700000100 1 (no_faults\<lparr>read_fails := True\<rparr>)
          (submit example_token (Some (Finite 5)) (Some (Finite 3))) example_table =
        (\<lparr>status = 200,
          content = OkMe (Some \<lparr>telegram_id = JNum 42, username = Some (js ''kitty''),
            max_score = Some 5, total_score = Some 3, updated_at = 1\<rparr>)\<rparr>,
         example_table(JNum 42 \<mapsto>
           \<lparr>telegram_id = JNum 42, username = Some (js ''kitty''), max_score = Some 5,
            total_score = Some 3, updated_at = 1\<rparr>)) \<and>
      serve_index hmac parse_id_42 example_env 1 no_faults
          (submit (ancient_token hmac) (Some (Finite 5)) (Some (Finite 3))) example_table =
        (\<lparr>status = 200, content = OkAck\<rparr>,
         example_table(JNum 42 \<mapsto>
           \<lparr>telegram_id = JNum 42, username = Some (js ''kitty''), max_score = Some 10,
            total_score = Some 10, updated_at = 1\<rparr>)))"
  by (simp add: serve_index_signed serve_part000_fresh reconcile_index_def reconcile_part000_def
      score_record_def upsert_def select_maybeSingle_def column_or_zero_def Number_or_zero_def
      no_faults_def example_table_def example_row_def example_call_def nameOk_def
      claimed_name_def regex_name_test_def Let_def)

text \<open>
  Claim C7 (a replay with identical arguments leaves the stored scores as they are after
  the first call) does not hold of the code, by the defect shown for C6: the error of the
  read of the current row is not looked at. On the stored row (10, 10) of identity 42 the
  submission of the scores (5, 3) leaves (10, 10); its replay with the same identity,
  scores and display name, during which the read fails, is answered with status 200 and
  leaves (5, 3). This holds of the reconciliation of both variants and of both request
  handlers.
\<close>

theorem failed_read_breaks_replay:
  "snd (reconcile_index (JNum 42) (example_call 5 3 None) 1 no_faults example_table) =
     example_table(JNum 42 \<mapsto>
       \<lparr>telegram_id = JNum 42, username = Some (js ''kitty''), max_score = Some 10,
        total_score = Some 10, updated_at = 1\<rparr>) \<and>
   reconcile_index (JNum 42) (example_call 5 3 None) 2 (no_faults\<lparr>read_fails := True\<rparr>)
       (snd (reconcile_index (JNum 42) (example_call 5 3 None) 1 no_faults example_table)) =
     (\<lparr>status = 200, content = OkAck\<rparr>,
      example_table(JNum 42 \<mapsto>
        \<lparr>telegram_id = JNum 42, username = Some (js ''kitty''), max_score = Some 5,
         total_score = Some 3, updated_at = 2\<rparr>)) \<and>
   snd (reconcile_part000 (JNum 42) (example_call 5 3 None) 1 no_faults example_table) =
     example_table(JNum 42 \<mapsto>
       \<lparr>telegram_id = JNum 42, username = Some (js ''kitty''), max_score = Some 10,
        total_score = Some 10, updated_at = 1\<rparr>) \<and>
   reconcile_part000 (JNum 42) (example_call 5 3 None) 2 (no_faults\<lparr>read_fails := True\<rparr>)
       (snd (reconcile_part000 (JNum 42) (example_call 5 3 None) 1 no_faults example_table)) =
     (\<lparr>status = 200,
       content = OkMe (Some \<lparr>telegram_id = JNum 42, username = Some (js ''kitty''),
         max_score = Some 5, total_score = Some 3, updated_at = 2\<rparr>)\<rparr>,
      example_table(JNum 42 \<mapsto>
        \<lparr>telegram_id = JNum 42, username = Some (js ''kitty''), max_score = Some 5,
         total_score = Some 3, updated_at = 2\<rparr>)) \<and>
   (\<forall>hmac.
      serve_index hmac parse_id_42 example_env 2 (no_faults\<lparr>read_fails := True\<rparr>)
          (submit (ancient_token hmac) (Some (Finite 5)) (Some (Finite 3)))
          (snd (serve_index hmac parse_id_42 example_env 1 no_faults
             (submit (ancient_token hmac) (Some (Finite 5)) (Some (Finite 3))) example_table)) =
        (\<lparr>status = 200, content = OkAck\<rparr>,
         example_table(JNum 42 \<mapsto>
           \<lparr>telegram_id = JNum 42, username = Some (js ''kitty''), max_score = Some 5,
            total_score = Some 3, updated_at = 2\<rparr>)) \<and>
      serve_part000 hmac parse_id_42 example_env 1700000100 2 (no_faults\<lparr>read_fails := True\<rparr>)
          (submit example_token (Some (Finite 5)) (Some (Finite 3)))
          (snd (serve_part000 hmac parse_id_42 example_env 1700000100 1 no_faults
             (submit example_token (Some (Finite 5)) (Some (Finite 3))) example_table)) =
        (\<lparr>status = 200,
          content = OkMe (Some \<lparr>telegram_id = JNum 42, username = Some (js ''kitty''),
            max_score = Some 5, total_score = Some 3, updated_at = 2\<rparr>)\<rparr>,
         example_table(JNum 42 \<mapsto>
           \<lparr>telegram_id = JNum 42, username = Some (js ''kitty''), max_score = Some 5,
            total_score = Some 3, updated_at = 2\<rparr>)))"
  by (simp add: serve_index_signed serve_part000_fresh reconcile_eval)

text \<open>
  Claim C8 as stated fails in two ways. The identity is looked at only after the earlier
  checks: a token of 1970 without a \<^verbatim>\<open>user\<close> field is answered by part_000 with 401
  "Expired or invalid auth_date", and a token without a \<^verbatim>\<open>user\<close> field whose hash does
  not match is answered by index.ts with 401 "Invalid Telegram signature", for every
  function in the place of HMAC-SHA256 (the claimed hash has three characters, a computed
  one an even number). And the identity is tested for truthiness, not for being a number:
  a token whose \<^verbatim>\<open>user\<close> field is \<^verbatim>\<open>{"id":"0"}\<close>, with a text as id, passes the earlier
  checks and is accepted by both variants, which write a row for that id.
\<close>

theorem earlier_gate_hides_missing_identity:
  "(\<forall>hmac json_parse.
     identity_missing json_parse stale_token \<and>
     serve_part000 hmac json_parse example_env 1700000000 1 no_faults
       (post stale_token) Map.empty =
       (\<lparr>status = 401, content = Error (js ''Expired or invalid auth_date'')\<rparr>, Map.empty) \<and>
     serve_index hmac json_parse example_env 1 no_faults
       (post stale_token) Map.empty =
       (\<lparr>status = 401, content = Error (js ''Invalid Telegram signature'')\<rparr>, Map.empty)) \<and>
   (\<forall>hmac.
     params_get (URLSearchParams text_id_token) (js ''user'') = Some (js ''{\"id\":\"0\"}'') \<and>
     params_get (URLSearchParams (signed_text_id_token hmac)) (js ''user'') =
       Some (js ''{\"id\":\"0\"}'') \<and>
     parse_id_text (js ''{\"id\":\"0\"}'') = Some (JObj [(js ''id'', JStr (js ''0''))]) \<and>
     serve_part000 hmac parse_id_text example_env 1700000100 1 no_faults
       (submit text_id_token (Some (Finite 10)) (Some (Finite 10))) Map.empty =
       (\<lparr>status = 200,
         content = OkMe (Some \<lparr>telegram_id = JStr (js ''0''), username = None,
           max_score = Some 10, total_score = Some 10, updated_at = 1\<rparr>)\<rparr>,
        Map.empty(JStr (js ''0'') \<mapsto>
          \<lparr>telegram_id = JStr (js ''0''), username = None, max_score = Some 10,
           total_score = Some 10, updated_at = 1\<rparr>)) \<and>
     serve_index hmac parse_id_text example_env 1 no_faults
       (submit (signed_text_id_token hmac) (Some (Finite 10)) (Some (Finite 10))) Map.empty =
       (\<lparr>status = 200, content = OkAck\<rparr>,
        Map.empty(JStr (js ''0'') \<mapsto>
          \<lparr>telegram_id = JStr (js ''0''), username = None, max_score = Some 10,
           total_score = Some 10, updated_at = 1\<rparr>)))"
proof (intro conjI allI)
  fix hmac :: "bytes \<Rightarrow> bytes \<Rightarrow> bytes" and json_parse :: "jsstring \<Rightarrow> json option"
  have entries: "URLSearchParams stale_token =
      [(js ''auth_date'', js ''0''), (js ''hash'', js ''abc'')]"
    by (simp add: stale_token_def token_eval)
  show 1: "identity_missing json_parse stale_token"
    by (simp add: identity_missing_def entries params_get_def js_def)
  have 2: "stale 1700000000 (authDate_of stale_token)"
    by (simp add: stale_def authDate_of_def entries params_get_def present_def js_def
        parseInt10_def is_js_space_def)
  have "length (calcHash hmac (js ''123:abc'') (dataCheckString_index stale_token))
      \<noteq> length (js ''abc'')"
    using even_length_calcHash [of hmac "js ''123:abc''"
        "dataCheckString_index stale_token"]
    by (auto simp: js_def)
  then have 3: "\<not> verifyTelegramInitData_index hmac stale_token (js ''123:abc'')"
    by (auto simp: verifyTelegramInitData_index_def claimed_hash_index_def entries params_get_def
        js_def)
  have n: "stale_token \<noteq> []" by (simp add: stale_token_def js_def)
  show "serve_part000 hmac json_parse example_env 1700000000 1 no_faults
       (post stale_token) Map.empty =
       (\<lparr>status = 401, content = Error (js ''Expired or invalid auth_date'')\<rparr>, Map.empty)"
    using 2 n
    by (simp add: serve_part000_def post_def example_env_def present_def js_def)
  show "serve_index hmac json_parse example_env 1 no_faults
       (post stale_token) Map.empty =
       (\<lparr>status = 401, content = Error (js ''Invalid Telegram signature'')\<rparr>, Map.empty)"
    using 3 n
    by (simp add: serve_index_def post_def example_env_def present_def js_def)
next
  fix hmac :: "bytes \<Rightarrow> bytes \<Rightarrow> bytes"
  show "params_get (URLSearchParams text_id_token) (js ''user'') = Some (js ''{\"id\":\"0\"}'')"
    by (simp add: text_id_token_entries params_get_def js_def)
  show "params_get (URLSearchParams (signed_text_id_token hmac)) (js ''user'') =
       Some (js ''{\"id\":\"0\"}'')"
    by (simp add: signed_text_id_token_entries params_get_def js_def)
  show "parse_id_text (js ''{\"id\":\"0\"}'') = Some (JObj [(js ''id'', JStr (js ''0''))])"
    by (simp add: parse_id_text_def)
  show "serve_part000 hmac parse_id_text example_env 1700000100 1 no_faults
       (submit text_id_token (Some (Finite 10)) (Some (Finite 10))) Map.empty =
       (\<lparr>status = 200,
         content = OkMe (Some \<lparr>telegram_id = JStr (js ''0''), username = None,
           max_score = Some 10, total_score = Some 10, updated_at = 1\<rparr>)\<rparr>,
        Map.empty(JStr (js ''0'') \<mapsto>
          \<lparr>telegram_id = JStr (js ''0''), username = None, max_score = Some 10,
           total_score = Some 10, updated_at = 1\<rparr>))"
    by (simp add: text_id_accepted_part000 reconcile_eval)
  show "serve_index hmac parse_id_text example_env 1 no_faults
       (submit (signed_text_id_token hmac) (Some (Finite 10)) (Some (Finite 10))) Map.empty =
       (\<lparr>status = 200, content = OkAck\<rparr>,
        Map.empty(JStr (js ''0'') \<mapsto>
          \<lparr>telegram_id = JStr (js ''0''), username = None, max_score = Some 10,
           total_score = Some 10, updated_at = 1\<rparr>))"
    by (simp add: text_id_accepted_index reconcile_eval)
qed

text \<open>
  Claim C8, amended. For every request that reaches the verification and whose token has
  no usable identity (\<open>identity_missing\<close>: the \<^verbatim>\<open>user\<close> field is absent or empty, or is
  not parsable as JSON, or the parsed value has no member \<^verbatim>\<open>id\<close>, or that member is
  \<^verbatim>\<open>null\<close>, \<^verbatim>\<open>false\<close>, 0 or the empty string), the response is 400 "No Telegram user"
  and the table is untouched, once the checks before it have passed: in index.ts the
  signature comparison, in part_000 the freshness check and the parsing of the token.
\<close>

theorem missing_identity_rejected:
  assumes "http_method req \<noteq> js ''OPTIONS''" and "body req = JsonValue p"
    and "present (req_initData p) = Some initData"
    and "present (SUPABASE_URL e) \<noteq> None" and "present (SUPABASE_SERVICE_ROLE_KEY e) \<noteq> None"
    and "present (TELEGRAM_BOT_TOKEN e) = Some botToken"
    and "identity_missing json_parse initData"
  shows "(verifyTelegramInitData_index hmac initData botToken \<longrightarrow>
           serve_index hmac json_parse e stamp f req tbl =
             (\<lparr>status = 400, content = Error (js ''No Telegram user'')\<rparr>, tbl)) \<and>
         (\<not> stale now (authDate_of initData) \<and>
          verifyTelegramInitData_part000 hmac initData botToken \<noteq> None \<longrightarrow>
           serve_part000 hmac json_parse e now stamp f req tbl =
             (\<lparr>status = 400, content = Error (js ''No Telegram user'')\<rparr>, tbl))"
  using assms
  by (auto simp: serve_index_def serve_part000_def identity_missing_iff split: option.splits)

text \<open>
  Witness for C8: a fresh token without a \<^verbatim>\<open>user\<close> field, in part_000.
\<close>

theorem missing_identity_rejected_witness:
  "\<forall>hmac json_parse.
     identity_missing json_parse fresh_token \<and>
     \<not> stale 1700000100 (authDate_of fresh_token) \<and>
     verifyTelegramInitData_part000 hmac fresh_token (js ''123:abc'') \<noteq> None \<and>
     serve_part000 hmac json_parse example_env 1700000100 1 no_faults (post fresh_token)
       Map.empty = (\<lparr>status = 400, content = Error (js ''No Telegram user'')\<rparr>, Map.empty)"
proof (intro allI)
  fix hmac :: "bytes \<Rightarrow> bytes \<Rightarrow> bytes" and json_parse :: "jsstring \<Rightarrow> json option"
  have entries: "URLSearchParams fresh_token =
      [(js ''auth_date'', js ''1700000000''), (js ''hash'', js ''abcdef'')]"
    by (simp add: fresh_token_def token_eval)
  have 1: "identity_missing json_parse fresh_token"
    by (simp add: identity_missing_def entries params_get_def js_def)
  have 2: "\<not> stale 1700000100 (authDate_of fresh_token)"
    by (simp add: stale_def authDate_of_def entries params_get_def present_def js_def
        parseInt10_def is_js_space_def)
  have 3: "verifyTelegramInitData_part000 hmac fresh_token (js ''123:abc'') \<noteq> None"
    by (simp add: verifyTelegramInitData_part000_def fresh_token_def token_eval)
  show "identity_missing json_parse fresh_token \<and>
     \<not> stale 1700000100 (authDate_of fresh_token) \<and>
     verifyTelegramInitData_part000 hmac fresh_token (js ''123:abc'') \<noteq> None \<and>
     serve_part000 hmac json_parse example_env 1700000100 1 no_faults (post fresh_token)
       Map.empty = (\<lparr>status = 400, content = Error (js ''No Telegram user'')\<rparr>, Map.empty)"
    using missing_identity_rejected [of "post fresh_token"
        "\<lparr>req_initData = Some fresh_token, req_runScore = Some (Finite 10),
          req_totalScore = Some (Finite 10), req_displayName = None\<rparr>"
        fresh_token example_env "js ''123:abc''" json_parse hmac 1 no_faults Map.empty
        1700000100] 1 2 3
    by (simp add: post_def example_env_def present_def fresh_token_def js_def)
qed

text \<open>
  Claim C9. A claimed display name is accepted exactly when, after trimming surrounding
  white space, it is 4 to 15 code units long and each is a Latin letter (A-Z, a-z), a
  Cyrillic letter (U+0410-U+044F, U+0401, U+0451), a digit, an underscore or a hyphen.
  "ab" and "name with space" are rejected, "abcd" and the four Cyrillic letters
  U+0410-U+0413 are accepted. When the claimed name is rejected the stored name of an
  existing row stays as it was, whatever the store answers; when it is accepted and the
  write reports no error, the trimmed name is stored. Both variants.
\<close>

theorem display_name_rule:
  "(nameOk (Some d) \<longleftrightarrow> spec_name_accepted d) \<and>
   \<not> nameOk (Some (js ''ab'')) \<and> \<not> nameOk (Some (js ''name with space'')) \<and>
   nameOk (Some (js ''abcd'')) \<and> nameOk (Some [1040, 1041, 1042, 1043]) \<and>
   (\<forall>R \<in> {reconcile_index, reconcile_part000}.
      (\<not> nameOk (req_displayName p) \<and> tbl k = Some old \<longrightarrow>
         (\<exists>r. snd (R k p stamp f tbl) k = Some r \<and> username r = username old)) \<and>
      (nameOk (req_displayName p) \<and> upsert_error f = None \<longrightarrow>
         (\<exists>r. snd (R k p stamp f tbl) k = Some r \<and>
              username r = Some (claimed_name (req_displayName p)))))"
  using nameOk_iff [of d] name_examples rejected_name_kept [of p tbl k old stamp f]
    accepted_name_written [of p f k stamp tbl]
  by (simp add: same_store_effect)

text \<open>
  Witness for C9: on the stored row named "kitty", the claimed name "ab" is rejected and
  the row keeps "kitty"; the claimed name "  kitty_2 " is accepted and stored trimmed.
\<close>

theorem display_name_rule_witness:
  "\<not> nameOk (Some (js ''ab'')) \<and> example_table (JNum 42) = Some example_row \<and>
   (\<exists>r. snd (reconcile_part000 (JNum 42) (example_call 5 30 (Some (js ''ab''))) 1 no_faults
            example_table) (JNum 42) = Some r \<and> username r = Some (js ''kitty'')) \<and>
   nameOk (Some (js ''  kitty_2 '')) \<and> upsert_error no_faults = None \<and>
   (\<exists>r. snd (reconcile_index (JNum 42) (example_call 5 30 (Some (js ''  kitty_2 ''))) 1
            no_faults example_table) (JNum 42) = Some r \<and> username r = Some (js ''kitty_2''))"
proof -
  have ok: "nameOk (Some (js ''  kitty_2 ''))"
    "claimed_name (Some (js ''  kitty_2 '')) = js ''kitty_2''"
    by (simp_all add: nameOk_def claimed_name_def js_trim_def js_def is_js_space_def
        regex_name_test_def name_class_def)
  have bad: "\<not> nameOk (Some (js ''ab''))"
    by (simp add: nameOk_def claimed_name_def js_trim_def js_def is_js_space_def
        regex_name_test_def)
  show ?thesis
    using display_name_rule [of "js ''ab''" "example_call 5 30 (Some (js ''ab''))"
        example_table "JNum 42" example_row 1 no_faults]
      display_name_rule [of "js ''ab''" "example_call 5 30 (Some (js ''  kitty_2 ''))"
        example_table "JNum 42" example_row 1 no_faults]
      ok bad
    by (simp add: example_table_def example_row_def example_call_def no_faults_def)
qed

text \<open>
  Claim C10 (a body that is not JSON is rejected with 400 "Missing initData"; a missing
  score counts as 0 and leaves the stored maximum unchanged) does not hold of the code in
  its second part, by the defect shown for C6: the error of the read of the current row is
  not looked at. A POST request whose body is not JSON is answered with 400 "Missing
  initData" by both variants. A request for identity 42 without \<^verbatim>\<open>runScore\<close> and
  \<^verbatim>\<open>totalScore\<close> leaves the stored row (10, 10) when the read answers; when the read
  fails it is answered with status 200 and leaves (0, 0), in both variants.
\<close>

theorem failed_read_resets_missing_score:
  "(\<forall>hmac json_parse.
      serve_index hmac json_parse example_env 1 no_faults
          \<lparr>http_method = js ''POST'', body = NotJson\<rparr> example_table =
        (\<lparr>status = 400, content = Error (js ''Missing initData'')\<rparr>, example_table) \<and>
      serve_part000 hmac json_parse example_env 1700000100 1 no_faults
          \<lparr>http_method = js ''POST'', body = NotJson\<rparr> example_table =
        (\<lparr>status = 400, content = Error (js ''Missing initData'')\<rparr>, example_table)) \<and>
   (\<forall>hmac.
      serve_index hmac parse_id_42 example_env 1 no_faults
          (submit (ancient_token hmac) None None) example_table =
        (\<lparr>status = 200, content = OkAck\<rparr>,
         example_table(JNum 42 \<mapsto>
           \<lparr>telegram_id = JNum 42, username = Some (js ''kitty''), max_score = Some 10,
            total_score = Some 10, updated_at = 1\<rparr>)) \<and>
      serve_index hmac parse_id_42 example_env 1 (no_faults\<lparr>read_fails := True\<rparr>)
          (submit (ancient_token hmac) None None) example_table =
        (\<lparr>status = 200, content = OkAck\<rparr>,
         example_table(JNum 42 \<mapsto>
           \<lparr>telegram_id = JNum 42, username = Some (js ''kitty''), max_score = Some 0,
            total_score = Some 0, updated_at = 1\<rparr>)) \<and>
      serve_part000 hmac parse_id_42 example_env 1700000100 1 (no_faults\<lparr>read_fails := True\<rparr>)
          (submit example_token None None) example_table =
        (\<lparr>status = 200,
          content = OkMe (Some \<lparr>telegram_id = JNum 42, username = Some (js ''kitty''),
            max_score = Some 0, total_score = Some 0, updated_at = 1\<rparr>)\<rparr>,
         example_table(JNum 42 \<mapsto>
           \<lparr>telegram_id = JNum 42, username = Some (js ''kitty''), max_score = Some 0,
            total_score = Some 0, updated_at = 1\<rparr>)))"
proof -
  have m: "js ''POST'' \<noteq> js ''OPTIONS''" by (simp add: js_def)
  show ?thesis
    using m
    by (simp add: not_json_rejected serve_index_signed serve_part000_fresh reconcile_eval)
qed

end
